theory Spec2Isabelle
  imports Main "HOL-Library.Word"
begin

section \<open>The native filter builders of the two session libraries\<close>

text \<open>
  \<^verbatim>\<open>pkg/identifier\<close> wraps two filter builders that live in the two Unit-of-Work
  libraries: \<^verbatim>\<open>mongoIdentifier.IIdentifier\<close> and \<^verbatim>\<open>postgresIdentifier.IIdentifier\<close>.
  Their sources are not part of this repository, so the wrapper is modelled over any
  implementation of them: \<open>'m\<close> and \<open>'p\<close> are the two kinds of native identifier, and
  the functions of the two packages that the wrapper calls are the fields of one record.
  A builder method returns an identifier (the one to go on chaining with), never
  \<^verbatim>\<open>nil\<close>. Go's \<^verbatim>\<open>interface{}\<close> values are a type variable \<open>'v\<close>, and the values
  stored in a \<^verbatim>\<open>map[string]interface{}\<close> extraction are \<open>'b\<close>. The Postgres builder
  is not asked for a \<^verbatim>\<open>Has\<close> method.
\<close>

record ('m, 'p, 'v, 'b) native_identifiers =
  mongo_New :: 'm
  mongo_Equal :: "'m \<Rightarrow> string \<Rightarrow> 'v \<Rightarrow> 'm"
  mongo_GreaterThan :: "'m \<Rightarrow> string \<Rightarrow> 'v \<Rightarrow> 'm"
  mongo_LessThan :: "'m \<Rightarrow> string \<Rightarrow> 'v \<Rightarrow> 'm"
  mongo_Between :: "'m \<Rightarrow> string \<Rightarrow> 'v \<Rightarrow> 'v \<Rightarrow> 'm"
  mongo_Like :: "'m \<Rightarrow> string \<Rightarrow> string \<Rightarrow> 'm"
  mongo_In :: "'m \<Rightarrow> string \<Rightarrow> 'v list \<Rightarrow> 'm"
  mongo_ToBSON :: "'m \<Rightarrow> (string \<rightharpoonup> 'b)"
  mongo_Has :: "'m \<Rightarrow> string \<Rightarrow> bool"
  postgres_NewIdentifier :: 'p
  postgres_Equal :: "'p \<Rightarrow> string \<Rightarrow> 'v \<Rightarrow> 'p"
  postgres_GreaterThan :: "'p \<Rightarrow> string \<Rightarrow> 'v \<Rightarrow> 'p"
  postgres_LessThan :: "'p \<Rightarrow> string \<Rightarrow> 'v \<Rightarrow> 'p"
  postgres_Between :: "'p \<Rightarrow> string \<Rightarrow> 'v \<Rightarrow> 'v \<Rightarrow> 'p"
  postgres_Like :: "'p \<Rightarrow> string \<Rightarrow> string \<Rightarrow> 'p"
  postgres_In :: "'p \<Rightarrow> string \<Rightarrow> 'v list \<Rightarrow> 'p"
  postgres_ToMap :: "'p \<Rightarrow> (string \<rightharpoonup> 'b)"

subsection \<open>The builders as the specification describes them\<close>

text \<open>
  Modelled from the spec: the predicates that the two native builders accumulate, whose
  packages are missing. Predicates are keyed by field name and operator, a repeated
  (field, operator) pair overwrites, different operators on one field coexist, and the
  native extraction is a mapping keyed by field name; \<^verbatim>\<open>Has\<close> is true when some
  predicate refers to the field.
\<close>

datatype operator = OpEqual | OpGreaterThan | OpLessThan | OpBetween | OpLike | OpIn

datatype 'v operand =
    Value 'v
  | Range 'v 'v
  | Pattern string
  | Values "'v list"

type_synonym 'v predicates = "string \<rightharpoonup> (operator \<rightharpoonup> 'v operand)"

text \<open>
  Modelled from the spec: the store operation of the two native builders, whose packages
  are missing. "Each records/overwrites a predicate for (field, operator) in the active
  native representation."
\<close>

definition record_predicate ::
  "string \<Rightarrow> operator \<Rightarrow> 'v operand \<Rightarrow> 'v predicates \<Rightarrow> 'v predicates" where
  "record_predicate field opr x ps =
     ps(field \<mapsto> (case ps field of None \<Rightarrow> Map.empty | Some m \<Rightarrow> m)(opr \<mapsto> x))"

text \<open>
  Modelled from the spec: \<^verbatim>\<open>mongoIdentifier.New()\<close>,
  \<^verbatim>\<open>postgresIdentifier.NewIdentifier()\<close> and the methods of the two
  \<^verbatim>\<open>IIdentifier\<close> interfaces that the wrapper calls; both packages are missing. A
  native identifier is the set of predicates recorded so far, and its extraction is that
  set.
\<close>

definition spec_identifiers ::
  "('v predicates, 'v predicates, 'v, operator \<rightharpoonup> 'v operand) native_identifiers" where
  "spec_identifiers =
     \<lparr>mongo_New = Map.empty,
      mongo_Equal = (\<lambda>ps field v. record_predicate field OpEqual (Value v) ps),
      mongo_GreaterThan = (\<lambda>ps field v. record_predicate field OpGreaterThan (Value v) ps),
      mongo_LessThan = (\<lambda>ps field v. record_predicate field OpLessThan (Value v) ps),
      mongo_Between = (\<lambda>ps field lo hi. record_predicate field OpBetween (Range lo hi) ps),
      mongo_Like = (\<lambda>ps field pattern. record_predicate field OpLike (Pattern pattern) ps),
      mongo_In = (\<lambda>ps field vs. record_predicate field OpIn (Values vs) ps),
      mongo_ToBSON = (\<lambda>ps. ps),
      mongo_Has = (\<lambda>ps field. ps field \<noteq> None),
      postgres_NewIdentifier = Map.empty,
      postgres_Equal = (\<lambda>ps field v. record_predicate field OpEqual (Value v) ps),
      postgres_GreaterThan =
        (\<lambda>ps field v. record_predicate field OpGreaterThan (Value v) ps),
      postgres_LessThan = (\<lambda>ps field v. record_predicate field OpLessThan (Value v) ps),
      postgres_Between =
        (\<lambda>ps field lo hi. record_predicate field OpBetween (Range lo hi) ps),
      postgres_Like =
        (\<lambda>ps field pattern. record_predicate field OpLike (Pattern pattern) ps),
      postgres_In = (\<lambda>ps field vs. record_predicate field OpIn (Values vs) ps),
      postgres_ToMap = (\<lambda>ps. ps)\<rparr>"

section \<open>The unified identifier (\<^verbatim>\<open>pkg/identifier\<close>)\<close>

text \<open>
  \<^verbatim>\<open>UnifiedIdentifier\<close> holds two interface values; \<open>None\<close> is Go's \<^verbatim>\<open>nil\<close>.
  The Go methods mutate the receiver through its pointer and return it; here each method
  takes the struct and returns the updated struct. The first argument \<open>N\<close> of a method
  stands for the two imported packages.
\<close>

record ('m, 'p) UnifiedIdentifier =
  mongoID :: "'m option"
  postgresID :: "'p option"

definition NewMongoIdentifier ::
  "('m, 'p, 'v, 'b) native_identifiers \<Rightarrow> ('m, 'p) UnifiedIdentifier" where
  "NewMongoIdentifier N = \<lparr>mongoID = Some (mongo_New N), postgresID = None\<rparr>"

definition NewPostgresIdentifier ::
  "('m, 'p, 'v, 'b) native_identifiers \<Rightarrow> ('m, 'p) UnifiedIdentifier" where
  "NewPostgresIdentifier N = \<lparr>mongoID = None, postgresID = Some (postgres_NewIdentifier N)\<rparr>"

definition Equal ::
  "('m, 'p, 'v, 'b) native_identifiers \<Rightarrow> ('m, 'p) UnifiedIdentifier \<Rightarrow>
   string \<Rightarrow> 'v \<Rightarrow> ('m, 'p) UnifiedIdentifier" where
  "Equal N u field v =
     (let u1 = (case mongoID u of
                  Some m \<Rightarrow> u\<lparr>mongoID := Some (mongo_Equal N m field v)\<rparr>
                | None \<Rightarrow> u)
      in (case postgresID u1 of
            Some p \<Rightarrow> u1\<lparr>postgresID := Some (postgres_Equal N p field v)\<rparr>
          | None \<Rightarrow> u1))"

definition GreaterThan ::
  "('m, 'p, 'v, 'b) native_identifiers \<Rightarrow> ('m, 'p) UnifiedIdentifier \<Rightarrow>
   string \<Rightarrow> 'v \<Rightarrow> ('m, 'p) UnifiedIdentifier" where
  "GreaterThan N u field v =
     (let u1 = (case mongoID u of
                  Some m \<Rightarrow> u\<lparr>mongoID := Some (mongo_GreaterThan N m field v)\<rparr>
                | None \<Rightarrow> u)
      in (case postgresID u1 of
            Some p \<Rightarrow> u1\<lparr>postgresID := Some (postgres_GreaterThan N p field v)\<rparr>
          | None \<Rightarrow> u1))"

definition LessThan ::
  "('m, 'p, 'v, 'b) native_identifiers \<Rightarrow> ('m, 'p) UnifiedIdentifier \<Rightarrow>
   string \<Rightarrow> 'v \<Rightarrow> ('m, 'p) UnifiedIdentifier" where
  "LessThan N u field v =
     (let u1 = (case mongoID u of
                  Some m \<Rightarrow> u\<lparr>mongoID := Some (mongo_LessThan N m field v)\<rparr>
                | None \<Rightarrow> u)
      in (case postgresID u1 of
            Some p \<Rightarrow> u1\<lparr>postgresID := Some (postgres_LessThan N p field v)\<rparr>
          | None \<Rightarrow> u1))"

definition Between ::
  "('m, 'p, 'v, 'b) native_identifiers \<Rightarrow> ('m, 'p) UnifiedIdentifier \<Rightarrow>
   string \<Rightarrow> 'v \<Rightarrow> 'v \<Rightarrow> ('m, 'p) UnifiedIdentifier" where
  "Between N u field lo hi =
     (let u1 = (case mongoID u of
                  Some m \<Rightarrow> u\<lparr>mongoID := Some (mongo_Between N m field lo hi)\<rparr>
                | None \<Rightarrow> u)
      in (case postgresID u1 of
            Some p \<Rightarrow> u1\<lparr>postgresID := Some (postgres_Between N p field lo hi)\<rparr>
          | None \<Rightarrow> u1))"

definition Like ::
  "('m, 'p, 'v, 'b) native_identifiers \<Rightarrow> ('m, 'p) UnifiedIdentifier \<Rightarrow>
   string \<Rightarrow> string \<Rightarrow> ('m, 'p) UnifiedIdentifier" where
  "Like N u field pattern =
     (let u1 = (case mongoID u of
                  Some m \<Rightarrow> u\<lparr>mongoID := Some (mongo_Like N m field pattern)\<rparr>
                | None \<Rightarrow> u)
      in (case postgresID u1 of
            Some p \<Rightarrow> u1\<lparr>postgresID := Some (postgres_Like N p field pattern)\<rparr>
          | None \<Rightarrow> u1))"

definition In ::
  "('m, 'p, 'v, 'b) native_identifiers \<Rightarrow> ('m, 'p) UnifiedIdentifier \<Rightarrow>
   string \<Rightarrow> 'v list \<Rightarrow> ('m, 'p) UnifiedIdentifier" where
  "In N u field vs =
     (let u1 = (case mongoID u of
                  Some m \<Rightarrow> u\<lparr>mongoID := Some (mongo_In N m field vs)\<rparr>
                | None \<Rightarrow> u)
      in (case postgresID u1 of
            Some p \<Rightarrow> u1\<lparr>postgresID := Some (postgres_In N p field vs)\<rparr>
          | None \<Rightarrow> u1))"

definition ToBSON ::
  "('m, 'p, 'v, 'b) native_identifiers \<Rightarrow> ('m, 'p) UnifiedIdentifier \<Rightarrow> (string \<rightharpoonup> 'b)" where
  "ToBSON N u = (case mongoID u of Some m \<Rightarrow> mongo_ToBSON N m | None \<Rightarrow> Map.empty)"

definition ToMap ::
  "('m, 'p, 'v, 'b) native_identifiers \<Rightarrow> ('m, 'p) UnifiedIdentifier \<Rightarrow> (string \<rightharpoonup> 'b)" where
  "ToMap N u = (case postgresID u of Some p \<Rightarrow> postgres_ToMap N p | None \<Rightarrow> Map.empty)"

text \<open>
  \<^verbatim>\<open>Has\<close> asks the Mongo builder when there is one; otherwise it looks the field up
  among the keys of the Postgres builder's map; with neither it answers \<^verbatim>\<open>false\<close>.
\<close>

definition Has ::
  "('m, 'p, 'v, 'b) native_identifiers \<Rightarrow> ('m, 'p) UnifiedIdentifier \<Rightarrow> string \<Rightarrow> bool" where
  "Has N u field =
     (case mongoID u of
        Some m \<Rightarrow> mongo_Has N m field
      | None \<Rightarrow>
          (case postgresID u of
             Some p \<Rightarrow> (postgres_ToMap N p field \<noteq> None)
           | None \<Rightarrow> False))"

definition GetMongoIdentifier :: "('m, 'p) UnifiedIdentifier \<Rightarrow> 'm option" where
  "GetMongoIdentifier u = mongoID u"

definition GetPostgresIdentifier :: "('m, 'p) UnifiedIdentifier \<Rightarrow> 'p option" where
  "GetPostgresIdentifier u = postgresID u"

text \<open>
  A sequence of predicate-builder calls, as data, and the identifier it leaves behind.
\<close>

datatype 'v builder_call =
    CallEqual string 'v
  | CallGreaterThan string 'v
  | CallLessThan string 'v
  | CallBetween string 'v 'v
  | CallLike string string
  | CallIn string "'v list"

fun apply_call ::
  "('m, 'p, 'v, 'b) native_identifiers \<Rightarrow> ('m, 'p) UnifiedIdentifier \<Rightarrow> 'v builder_call \<Rightarrow>
   ('m, 'p) UnifiedIdentifier" where
  "apply_call N u (CallEqual f v) = Equal N u f v"
| "apply_call N u (CallGreaterThan f v) = GreaterThan N u f v"
| "apply_call N u (CallLessThan f v) = LessThan N u f v"
| "apply_call N u (CallBetween f lo hi) = Between N u f lo hi"
| "apply_call N u (CallLike f p) = Like N u f p"
| "apply_call N u (CallIn f vs) = In N u f vs"

definition apply_calls ::
  "('m, 'p, 'v, 'b) native_identifiers \<Rightarrow> ('m, 'p) UnifiedIdentifier \<Rightarrow>
   'v builder_call list \<Rightarrow> ('m, 'p) UnifiedIdentifier" where
  "apply_calls N u cs = foldl (apply_call N) u cs"

text \<open>
  Modelled from the spec: the field, the operator and the operand of the predicate that a
  builder call records ("each records/overwrites a predicate for (field, operator)").
\<close>

fun call_field :: "'v builder_call \<Rightarrow> string" where
  "call_field (CallEqual f v) = f"
| "call_field (CallGreaterThan f v) = f"
| "call_field (CallLessThan f v) = f"
| "call_field (CallBetween f lo hi) = f"
| "call_field (CallLike f p) = f"
| "call_field (CallIn f vs) = f"

fun call_operator :: "'v builder_call \<Rightarrow> operator" where
  "call_operator (CallEqual f v) = OpEqual"
| "call_operator (CallGreaterThan f v) = OpGreaterThan"
| "call_operator (CallLessThan f v) = OpLessThan"
| "call_operator (CallBetween f lo hi) = OpBetween"
| "call_operator (CallLike f p) = OpLike"
| "call_operator (CallIn f vs) = OpIn"

fun call_operand :: "'v builder_call \<Rightarrow> 'v operand" where
  "call_operand (CallEqual f v) = Value v"
| "call_operand (CallGreaterThan f v) = Value v"
| "call_operand (CallLessThan f v) = Value v"
| "call_operand (CallBetween f lo hi) = Range lo hi"
| "call_operand (CallLike f p) = Pattern p"
| "call_operand (CallIn f vs) = Values vs"

section \<open>Shared types (\<^verbatim>\<open>pkg/types\<close>)\<close>

text \<open>
  \<^verbatim>\<open>SortDirection\<close> is a string type with two named constants; any other string is
  a value of the type as well. A \<^verbatim>\<open>SortMap\<close> is a Go map, which may be \<^verbatim>\<open>nil\<close>
  (\<open>None\<close>).
\<close>

type_synonym SortDirection = string

definition SortAsc :: SortDirection where
  "SortAsc = ''ASC''"

definition SortDesc :: SortDirection where
  "SortDesc = ''DESC''"

type_synonym SortMap = "(string \<rightharpoonup> SortDirection) option"

record 'ent QueryParams =
  Filter :: 'ent
  Limit :: int
  Offset :: int
  Sort :: SortMap
  Include :: "string list"

text \<open>
  A value of the interface type \<^verbatim>\<open>types.Identifier\<close>: the \<^verbatim>\<open>nil\<close> interface, a
  \<^verbatim>\<open>*identifier.UnifiedIdentifier\<close> (a pointer, itself possibly \<^verbatim>\<open>nil\<close>), or a value
  of any other type \<open>'o\<close> that implements the interface.
\<close>

datatype ('m, 'p, 'o) Identifier =
    NilIdentifier
  | UnifiedIdentifierPtr "('m, 'p) UnifiedIdentifier option"
  | OtherIdentifier 'o

section \<open>The session collaborators\<close>

text \<open>
  The two Unit-of-Work libraries supply the session (\<^verbatim>\<open>IUnitOfWork\<close>), its factory
  and the native query descriptor. The session and the factory are parameters of the
  facade: a session is a record of its operations, each a function on the state \<open>'st\<close> of
  the backing store that returns its Go results and the new state. A Go \<^verbatim>\<open>error\<close> is
  \<open>'err option\<close> with \<open>None\<close> for \<^verbatim>\<open>nil\<close>. The result type \<open>'rb\<close> of the
  session's rollback is left open: the facade never looks at it.
\<close>

text \<open>
  Modelled from the spec: the sort directions of the two \<^verbatim>\<open>domain\<close> packages, which
  are missing; the facades name their constants \<^verbatim>\<open>SortAsc\<close> and \<^verbatim>\<open>SortDesc\<close>.
  "Sort Direction: a closed enumeration {ascending, descending}."
\<close>

datatype mongoDomain_SortDirection = MongoSortAsc | MongoSortDesc

datatype postgresDomain_SortDirection = PostgresSortAsc | PostgresSortDesc

text \<open>
  The count that the session's paginated reads return is declared in the session
  libraries, as an unsigned machine integer (Go's \<^verbatim>\<open>uint\<close>, taken 64 bits wide). The
  facades return \<^verbatim>\<open>int64(count)\<close>: the
  conversion keeps the 64 bits and reads them as a signed number, so a count of
  \<open>2 ^ 63\<close> or more comes out negative.
\<close>

type_synonym uint = "64 word"

definition int64 :: "uint \<Rightarrow> int" where
  "int64 count = sint count"

text \<open>
  The native descriptor \<^verbatim>\<open>domain.QueryParams[T]\<close>, with the four fields that the
  facades set in their struct literals.
\<close>

record ('ent, 'nd) domain_QueryParams =
  qp_Filter :: 'ent
  qp_Limit :: int
  qp_Offset :: int
  qp_Sort :: "(string \<rightharpoonup> 'nd) option"

record ('ctx, 'id, 'ent, 'nf, 'nd, 'err, 'rb, 'st) UnitOfWork =
  uow_FindOneById :: "'ctx \<Rightarrow> 'id \<Rightarrow> 'st \<Rightarrow> ('ent \<times> 'err option) \<times> 'st"
  uow_FindOneByIdentifier :: "'ctx \<Rightarrow> 'nf \<Rightarrow> 'st \<Rightarrow> ('ent \<times> 'err option) \<times> 'st"
  uow_FindAll :: "'ctx \<Rightarrow> 'st \<Rightarrow> ('ent list \<times> 'err option) \<times> 'st"
  uow_FindAllWithPagination ::
    "'ctx \<Rightarrow> ('ent, 'nd) domain_QueryParams \<Rightarrow> 'st \<Rightarrow> ('ent list \<times> uint \<times> 'err option) \<times> 'st"
  uow_Insert :: "'ctx \<Rightarrow> 'ent \<Rightarrow> 'st \<Rightarrow> ('ent \<times> 'err option) \<times> 'st"
  uow_Update :: "'ctx \<Rightarrow> 'nf \<Rightarrow> 'ent \<Rightarrow> 'st \<Rightarrow> ('ent \<times> 'err option) \<times> 'st"
  uow_Delete :: "'ctx \<Rightarrow> 'nf \<Rightarrow> 'st \<Rightarrow> 'err option \<times> 'st"
  uow_BulkInsert :: "'ctx \<Rightarrow> 'ent list \<Rightarrow> 'st \<Rightarrow> ('ent list \<times> 'err option) \<times> 'st"
  uow_BulkUpdate :: "'ctx \<Rightarrow> 'ent list \<Rightarrow> 'st \<Rightarrow> ('ent list \<times> 'err option) \<times> 'st"
  uow_SoftDelete :: "'ctx \<Rightarrow> 'nf \<Rightarrow> 'st \<Rightarrow> ('ent \<times> 'err option) \<times> 'st"
  uow_HardDelete :: "'ctx \<Rightarrow> 'nf \<Rightarrow> 'st \<Rightarrow> ('ent \<times> 'err option) \<times> 'st"
  uow_BulkSoftDelete :: "'ctx \<Rightarrow> 'nf list \<Rightarrow> 'st \<Rightarrow> 'err option \<times> 'st"
  uow_BulkHardDelete :: "'ctx \<Rightarrow> 'nf list \<Rightarrow> 'st \<Rightarrow> 'err option \<times> 'st"
  uow_GetTrashed :: "'ctx \<Rightarrow> 'st \<Rightarrow> ('ent list \<times> 'err option) \<times> 'st"
  uow_GetTrashedWithPagination ::
    "'ctx \<Rightarrow> ('ent, 'nd) domain_QueryParams \<Rightarrow> 'st \<Rightarrow> ('ent list \<times> uint \<times> 'err option) \<times> 'st"
  uow_Restore :: "'ctx \<Rightarrow> 'nf \<Rightarrow> 'st \<Rightarrow> ('ent \<times> 'err option) \<times> 'st"
  uow_RestoreAll :: "'ctx \<Rightarrow> 'st \<Rightarrow> 'err option \<times> 'st"
  uow_BeginTransaction :: "'ctx \<Rightarrow> 'st \<Rightarrow> 'err option \<times> 'st"
  uow_CommitTransaction :: "'ctx \<Rightarrow> 'st \<Rightarrow> 'err option \<times> 'st"
  uow_RollbackTransaction :: "'ctx \<Rightarrow> 'st \<Rightarrow> 'rb \<times> 'st"

text \<open>
  \<^verbatim>\<open>BaseRepository\<close> holds the factory; \<^verbatim>\<open>CreateWithContext\<close> is the factory's one
  method, taken to hand out a session without touching the store.
\<close>

record ('ctx, 'id, 'ent, 'nf, 'nd, 'err, 'rb, 'st) BaseRepository =
  factory :: "'ctx \<Rightarrow> ('ctx, 'id, 'ent, 'nf, 'nd, 'err, 'rb, 'st) UnitOfWork"

definition CreateWithContext ::
  "('ctx \<Rightarrow> ('ctx, 'id, 'ent, 'nf, 'nd, 'err, 'rb, 'st) UnitOfWork) \<Rightarrow> 'ctx \<Rightarrow>
   ('ctx, 'id, 'ent, 'nf, 'nd, 'err, 'rb, 'st) UnitOfWork" where
  "CreateWithContext fac ctx = fac ctx"

text \<open>
  The two instances of the generic \<^verbatim>\<open>BaseRepository[T]\<close>: the native filter handed to
  the session is the (possibly \<^verbatim>\<open>nil\<close>) native identifier of that backend.
\<close>

type_synonym ('ctx, 'id, 'ent, 'm, 'err, 'rb, 'st) mongo_BaseRepository =
  "('ctx, 'id, 'ent, 'm option, mongoDomain_SortDirection, 'err, 'rb, 'st)
   BaseRepository"

type_synonym ('ctx, 'id, 'ent, 'p, 'err, 'rb, 'st) postgres_BaseRepository =
  "('ctx, 'id, 'ent, 'p option, postgresDomain_SortDirection, 'err, 'rb, 'st)
   BaseRepository"

section \<open>Panics and the filter down-cast\<close>

datatype panic = TypeAssertionPanic | NilDereferencePanic

text \<open>
  A facade call either panics, leaving the store as it was (every panic of the facade
  happens before the session is used), or returns what the session returned.
\<close>

definition returned :: "'a \<times> 'st \<Rightarrow> (panic + 'a) \<times> 'st" where
  "returned r = (Inr (fst r), snd r)"

definition panicked :: "panic \<Rightarrow> 'st \<Rightarrow> (panic + 'a) \<times> 'st" where
  "panicked p st = (Inl p, st)"

text \<open>
  \<^verbatim>\<open>filter.(*identifier.UnifiedIdentifier)\<close>: the single-value form of the type
  assertion, which panics unless the dynamic type is the asserted one.
\<close>

fun assertUnified :: "('m, 'p, 'o) Identifier \<Rightarrow> panic + ('m, 'p) UnifiedIdentifier option" where
  "assertUnified NilIdentifier = Inl TypeAssertionPanic"
| "assertUnified (OtherIdentifier x) = Inl TypeAssertionPanic"
| "assertUnified (UnifiedIdentifierPtr ptr) = Inr ptr"

text \<open>
  \<^verbatim>\<open>unifiedFilter.GetMongoIdentifier()\<close> following the assertion: the method reads a
  field through its pointer receiver, so a \<^verbatim>\<open>nil\<close> pointer panics.
\<close>

definition mongo_nativeFilter ::
  "('m, 'p, 'o) Identifier \<Rightarrow> panic + 'm option" where
  "mongo_nativeFilter filt =
     (case assertUnified filt of
        Inl p \<Rightarrow> Inl p
      | Inr None \<Rightarrow> Inl NilDereferencePanic
      | Inr (Some unifiedFilter) \<Rightarrow> Inr (GetMongoIdentifier unifiedFilter))"

definition postgres_nativeFilter ::
  "('m, 'p, 'o) Identifier \<Rightarrow> panic + 'p option" where
  "postgres_nativeFilter filt =
     (case assertUnified filt of
        Inl p \<Rightarrow> Inl p
      | Inr None \<Rightarrow> Inl NilDereferencePanic
      | Inr (Some unifiedFilter) \<Rightarrow> Inr (GetPostgresIdentifier unifiedFilter))"

text \<open>
  The conversion loop of the bulk operations: the filters are converted in order into a
  slice of the same length, and the first filter that panics ends the call.
\<close>

fun mongo_nativeFilters ::
  "('m, 'p, 'o) Identifier list \<Rightarrow> panic + 'm option list" where
  "mongo_nativeFilters [] = Inr []"
| "mongo_nativeFilters (filt # filters) =
     (case mongo_nativeFilter filt of
        Inl p \<Rightarrow> Inl p
      | Inr nf \<Rightarrow>
          (case mongo_nativeFilters filters of
             Inl p \<Rightarrow> Inl p
           | Inr nfs \<Rightarrow> Inr (nf # nfs)))"

fun postgres_nativeFilters ::
  "('m, 'p, 'o) Identifier list \<Rightarrow> panic + 'p option list" where
  "postgres_nativeFilters [] = Inr []"
| "postgres_nativeFilters (filt # filters) =
     (case postgres_nativeFilter filt of
        Inl p \<Rightarrow> Inl p
      | Inr nf \<Rightarrow>
          (case postgres_nativeFilters filters of
             Inl p \<Rightarrow> Inl p
           | Inr nfs \<Rightarrow> Inr (nf # nfs)))"

text \<open>
  \<^verbatim>\<open>convertSortMap\<close> of the MongoDB facade. A \<^verbatim>\<open>nil\<close> map stays \<^verbatim>\<open>nil\<close>.
  Otherwise the loop visits every entry of the map once and writes at most the entry's
  own key of a fresh map, so the result is given key by key; the \<^verbatim>\<open>switch\<close> has two
  cases and no default.
\<close>

definition mongo_convertSortMap ::
  "SortMap \<Rightarrow> (string \<rightharpoonup> mongoDomain_SortDirection) option" where
  "mongo_convertSortMap sortMap =
     (case sortMap of
        None \<Rightarrow> None
      | Some m \<Rightarrow>
          Some (\<lambda>field.
            (case m field of
               None \<Rightarrow> None
             | Some direction \<Rightarrow>
                 if direction = SortAsc then Some MongoSortAsc
                 else if direction = SortDesc then Some MongoSortDesc
                 else None)))"

definition mongo_queryParams ::
  "'ent QueryParams \<Rightarrow> ('ent, mongoDomain_SortDirection) domain_QueryParams" where
  "mongo_queryParams params =
     \<lparr>qp_Filter = Filter params, qp_Limit = Limit params, qp_Offset = Offset params,
      qp_Sort = mongo_convertSortMap (Sort params)\<rparr>"

text \<open>
  \<^verbatim>\<open>convertSortMap\<close> of the PostgreSQL facade. A \<^verbatim>\<open>nil\<close> map stays \<^verbatim>\<open>nil\<close>.
  Otherwise the loop visits every entry of the map once and writes at most the entry's
  own key of a fresh map, so the result is given key by key; the \<^verbatim>\<open>switch\<close> has two
  cases and no default.
\<close>

definition postgres_convertSortMap ::
  "SortMap \<Rightarrow> (string \<rightharpoonup> postgresDomain_SortDirection) option" where
  "postgres_convertSortMap sortMap =
     (case sortMap of
        None \<Rightarrow> None
      | Some m \<Rightarrow>
          Some (\<lambda>field.
            (case m field of
               None \<Rightarrow> None
             | Some direction \<Rightarrow>
                 if direction = SortAsc then Some PostgresSortAsc
                 else if direction = SortDesc then Some PostgresSortDesc
                 else None)))"

definition postgres_queryParams ::
  "'ent QueryParams \<Rightarrow> ('ent, postgresDomain_SortDirection) domain_QueryParams" where
  "postgres_queryParams params =
     \<lparr>qp_Filter = Filter params, qp_Limit = Limit params, qp_Offset = Offset params,
      qp_Sort = postgres_convertSortMap (Sort params)\<rparr>"

section \<open>The MongoDB facade\<close>

text \<open>
  Every method first asks the factory for a session scoped to the call context, then
  makes one call on it.
\<close>

definition mongo_FindOneById ::
  "('ctx, 'id, 'ent, 'm, 'err, 'rb, 'st) mongo_BaseRepository \<Rightarrow>
   'ctx \<Rightarrow>
   'id \<Rightarrow>
   'st \<Rightarrow>
   (panic + ('ent \<times> 'err option)) \<times> 'st" where
  "mongo_FindOneById r ctx ident st =
     (let uow = CreateWithContext (factory r) ctx in
      returned (uow_FindOneById uow ctx ident st))"

definition mongo_FindOne ::
  "('ctx, 'id, 'ent, 'm, 'err, 'rb, 'st) mongo_BaseRepository \<Rightarrow>
   'ctx \<Rightarrow>
   ('m, 'p, 'o) Identifier \<Rightarrow>
   'st \<Rightarrow>
   (panic + ('ent \<times> 'err option)) \<times> 'st" where
  "mongo_FindOne r ctx filt st =
     (let uow = CreateWithContext (factory r) ctx in
      (case mongo_nativeFilter filt of
         Inl p \<Rightarrow> panicked p st
       | Inr nf \<Rightarrow> returned (uow_FindOneByIdentifier uow ctx nf st)))"

text \<open>\<^verbatim>\<open>FindAll\<close> receives the filter and calls the session's \<^verbatim>\<open>FindAll(ctx)\<close>.\<close>

definition mongo_FindAll ::
  "('ctx, 'id, 'ent, 'm, 'err, 'rb, 'st) mongo_BaseRepository \<Rightarrow>
   'ctx \<Rightarrow>
   ('m, 'p, 'o) Identifier \<Rightarrow>
   'st \<Rightarrow>
   (panic + ('ent list \<times> 'err option)) \<times> 'st" where
  "mongo_FindAll r ctx filt st =
     (let uow = CreateWithContext (factory r) ctx in
      returned (uow_FindAll uow ctx st))"

definition mongo_Insert ::
  "('ctx, 'id, 'ent, 'm, 'err, 'rb, 'st) mongo_BaseRepository \<Rightarrow>
   'ctx \<Rightarrow>
   'ent \<Rightarrow>
   'st \<Rightarrow>
   (panic + ('ent \<times> 'err option)) \<times> 'st" where
  "mongo_Insert r ctx entity st =
     (let uow = CreateWithContext (factory r) ctx in
      returned (uow_Insert uow ctx entity st))"

definition mongo_Update ::
  "('ctx, 'id, 'ent, 'm, 'err, 'rb, 'st) mongo_BaseRepository \<Rightarrow>
   'ctx \<Rightarrow>
   ('m, 'p, 'o) Identifier \<Rightarrow>
   'ent \<Rightarrow>
   'st \<Rightarrow>
   (panic + ('ent \<times> 'err option)) \<times> 'st" where
  "mongo_Update r ctx filt entity st =
     (let uow = CreateWithContext (factory r) ctx in
      (case mongo_nativeFilter filt of
         Inl p \<Rightarrow> panicked p st
       | Inr nf \<Rightarrow> returned (uow_Update uow ctx nf entity st)))"

definition mongo_Delete ::
  "('ctx, 'id, 'ent, 'm, 'err, 'rb, 'st) mongo_BaseRepository \<Rightarrow>
   'ctx \<Rightarrow>
   ('m, 'p, 'o) Identifier \<Rightarrow>
   'st \<Rightarrow>
   (panic + 'err option) \<times> 'st" where
  "mongo_Delete r ctx filt st =
     (let uow = CreateWithContext (factory r) ctx in
      (case mongo_nativeFilter filt of
         Inl p \<Rightarrow> panicked p st
       | Inr nf \<Rightarrow> returned (uow_Delete uow ctx nf st)))"

definition mongo_BulkInsert ::
  "('ctx, 'id, 'ent, 'm, 'err, 'rb, 'st) mongo_BaseRepository \<Rightarrow>
   'ctx \<Rightarrow>
   'ent list \<Rightarrow>
   'st \<Rightarrow>
   (panic + ('ent list \<times> 'err option)) \<times> 'st" where
  "mongo_BulkInsert r ctx entities st =
     (let uow = CreateWithContext (factory r) ctx in
      returned (uow_BulkInsert uow ctx entities st))"

definition mongo_BulkUpdate ::
  "('ctx, 'id, 'ent, 'm, 'err, 'rb, 'st) mongo_BaseRepository \<Rightarrow>
   'ctx \<Rightarrow>
   'ent list \<Rightarrow>
   'st \<Rightarrow>
   (panic + ('ent list \<times> 'err option)) \<times> 'st" where
  "mongo_BulkUpdate r ctx entities st =
     (let uow = CreateWithContext (factory r) ctx in
      returned (uow_BulkUpdate uow ctx entities st))"

text \<open>\<^verbatim>\<open>BulkDelete\<close> ends in the session's \<^verbatim>\<open>BulkHardDelete\<close>.\<close>

definition mongo_BulkDelete ::
  "('ctx, 'id, 'ent, 'm, 'err, 'rb, 'st) mongo_BaseRepository \<Rightarrow>
   'ctx \<Rightarrow>
   ('m, 'p, 'o) Identifier list \<Rightarrow>
   'st \<Rightarrow>
   (panic + 'err option) \<times> 'st" where
  "mongo_BulkDelete r ctx filters st =
     (let uow = CreateWithContext (factory r) ctx in
      (case mongo_nativeFilters filters of
         Inl p \<Rightarrow> panicked p st
       | Inr nfs \<Rightarrow> returned (uow_BulkHardDelete uow ctx nfs st)))"

definition mongo_SoftDelete ::
  "('ctx, 'id, 'ent, 'm, 'err, 'rb, 'st) mongo_BaseRepository \<Rightarrow>
   'ctx \<Rightarrow>
   ('m, 'p, 'o) Identifier \<Rightarrow>
   'st \<Rightarrow>
   (panic + ('ent \<times> 'err option)) \<times> 'st" where
  "mongo_SoftDelete r ctx filt st =
     (let uow = CreateWithContext (factory r) ctx in
      (case mongo_nativeFilter filt of
         Inl p \<Rightarrow> panicked p st
       | Inr nf \<Rightarrow> returned (uow_SoftDelete uow ctx nf st)))"

definition mongo_HardDelete ::
  "('ctx, 'id, 'ent, 'm, 'err, 'rb, 'st) mongo_BaseRepository \<Rightarrow>
   'ctx \<Rightarrow>
   ('m, 'p, 'o) Identifier \<Rightarrow>
   'st \<Rightarrow>
   (panic + ('ent \<times> 'err option)) \<times> 'st" where
  "mongo_HardDelete r ctx filt st =
     (let uow = CreateWithContext (factory r) ctx in
      (case mongo_nativeFilter filt of
         Inl p \<Rightarrow> panicked p st
       | Inr nf \<Rightarrow> returned (uow_HardDelete uow ctx nf st)))"

definition mongo_BulkSoftDelete ::
  "('ctx, 'id, 'ent, 'm, 'err, 'rb, 'st) mongo_BaseRepository \<Rightarrow>
   'ctx \<Rightarrow>
   ('m, 'p, 'o) Identifier list \<Rightarrow>
   'st \<Rightarrow>
   (panic + 'err option) \<times> 'st" where
  "mongo_BulkSoftDelete r ctx filters st =
     (let uow = CreateWithContext (factory r) ctx in
      (case mongo_nativeFilters filters of
         Inl p \<Rightarrow> panicked p st
       | Inr nfs \<Rightarrow> returned (uow_BulkSoftDelete uow ctx nfs st)))"

definition mongo_BulkHardDelete ::
  "('ctx, 'id, 'ent, 'm, 'err, 'rb, 'st) mongo_BaseRepository \<Rightarrow>
   'ctx \<Rightarrow>
   ('m, 'p, 'o) Identifier list \<Rightarrow>
   'st \<Rightarrow>
   (panic + 'err option) \<times> 'st" where
  "mongo_BulkHardDelete r ctx filters st =
     (let uow = CreateWithContext (factory r) ctx in
      (case mongo_nativeFilters filters of
         Inl p \<Rightarrow> panicked p st
       | Inr nfs \<Rightarrow> returned (uow_BulkHardDelete uow ctx nfs st)))"

definition mongo_GetTrashed ::
  "('ctx, 'id, 'ent, 'm, 'err, 'rb, 'st) mongo_BaseRepository \<Rightarrow>
   'ctx \<Rightarrow>
   'st \<Rightarrow>
   (panic + ('ent list \<times> 'err option)) \<times> 'st" where
  "mongo_GetTrashed r ctx st =
     (let uow = CreateWithContext (factory r) ctx in
      returned (uow_GetTrashed uow ctx st))"

definition mongo_Restore ::
  "('ctx, 'id, 'ent, 'm, 'err, 'rb, 'st) mongo_BaseRepository \<Rightarrow>
   'ctx \<Rightarrow>
   ('m, 'p, 'o) Identifier \<Rightarrow>
   'st \<Rightarrow>
   (panic + ('ent \<times> 'err option)) \<times> 'st" where
  "mongo_Restore r ctx filt st =
     (let uow = CreateWithContext (factory r) ctx in
      (case mongo_nativeFilter filt of
         Inl p \<Rightarrow> panicked p st
       | Inr nf \<Rightarrow> returned (uow_Restore uow ctx nf st)))"

definition mongo_RestoreAll ::
  "('ctx, 'id, 'ent, 'm, 'err, 'rb, 'st) mongo_BaseRepository \<Rightarrow>
   'ctx \<Rightarrow>
   'st \<Rightarrow>
   (panic + 'err option) \<times> 'st" where
  "mongo_RestoreAll r ctx st =
     (let uow = CreateWithContext (factory r) ctx in
      returned (uow_RestoreAll uow ctx st))"

definition mongo_BeginTransaction ::
  "('ctx, 'id, 'ent, 'm, 'err, 'rb, 'st) mongo_BaseRepository \<Rightarrow>
   'ctx \<Rightarrow>
   'st \<Rightarrow>
   (panic + 'err option) \<times> 'st" where
  "mongo_BeginTransaction r ctx st =
     (let uow = CreateWithContext (factory r) ctx in
      returned (uow_BeginTransaction uow ctx st))"

definition mongo_CommitTransaction ::
  "('ctx, 'id, 'ent, 'm, 'err, 'rb, 'st) mongo_BaseRepository \<Rightarrow>
   'ctx \<Rightarrow>
   'st \<Rightarrow>
   (panic + 'err option) \<times> 'st" where
  "mongo_CommitTransaction r ctx st =
     (let uow = CreateWithContext (factory r) ctx in
      returned (uow_CommitTransaction uow ctx st))"

text \<open>
  \<^verbatim>\<open>RollbackTransaction\<close> calls the session's rollback as a statement and returns
  \<^verbatim>\<open>nil\<close>: the store is what the rollback left, the result is dropped.
\<close>

definition mongo_RollbackTransaction ::
  "('ctx, 'id, 'ent, 'm, 'err, 'rb, 'st) mongo_BaseRepository \<Rightarrow>
   'ctx \<Rightarrow>
   'st \<Rightarrow>
   (panic + 'err option) \<times> 'st" where
  "mongo_RollbackTransaction r ctx st =
     (let uow = CreateWithContext (factory r) ctx in
      (Inr None, snd (uow_RollbackTransaction uow ctx st)))"

text \<open>
  The paginated reads build the native descriptor, call the session and return its
  entities and error with the count converted by \<^verbatim>\<open>int64(count)\<close>.
\<close>

definition mongo_FindAllWithPagination ::
  "('ctx, 'id, 'ent, 'm, 'err, 'rb, 'st) mongo_BaseRepository \<Rightarrow>
   'ctx \<Rightarrow>
   'ent QueryParams \<Rightarrow>
   'st \<Rightarrow>
   (panic + ('ent list \<times> int \<times> 'err option)) \<times> 'st" where
  "mongo_FindAllWithPagination r ctx params st =
     (let uow = CreateWithContext (factory r) ctx;
          queryParams = mongo_queryParams params
      in (case uow_FindAllWithPagination uow ctx queryParams st of
            ((entities, count, err), st') \<Rightarrow> (Inr (entities, int64 count, err), st')))"

definition mongo_GetTrashedWithPagination ::
  "('ctx, 'id, 'ent, 'm, 'err, 'rb, 'st) mongo_BaseRepository \<Rightarrow>
   'ctx \<Rightarrow>
   'ent QueryParams \<Rightarrow>
   'st \<Rightarrow>
   (panic + ('ent list \<times> int \<times> 'err option)) \<times> 'st" where
  "mongo_GetTrashedWithPagination r ctx params st =
     (let uow = CreateWithContext (factory r) ctx;
          queryParams = mongo_queryParams params
      in (case uow_GetTrashedWithPagination uow ctx queryParams st of
            ((entities, count, err), st') \<Rightarrow> (Inr (entities, int64 count, err), st')))"

section \<open>The PostgreSQL facade\<close>

text \<open>
  Every method first asks the factory for a session scoped to the call context, then
  makes one call on it.
\<close>

definition postgres_FindOneById ::
  "('ctx, 'id, 'ent, 'p, 'err, 'rb, 'st) postgres_BaseRepository \<Rightarrow>
   'ctx \<Rightarrow>
   'id \<Rightarrow>
   'st \<Rightarrow>
   (panic + ('ent \<times> 'err option)) \<times> 'st" where
  "postgres_FindOneById r ctx ident st =
     (let uow = CreateWithContext (factory r) ctx in
      returned (uow_FindOneById uow ctx ident st))"

definition postgres_FindOne ::
  "('ctx, 'id, 'ent, 'p, 'err, 'rb, 'st) postgres_BaseRepository \<Rightarrow>
   'ctx \<Rightarrow>
   ('m, 'p, 'o) Identifier \<Rightarrow>
   'st \<Rightarrow>
   (panic + ('ent \<times> 'err option)) \<times> 'st" where
  "postgres_FindOne r ctx filt st =
     (let uow = CreateWithContext (factory r) ctx in
      (case postgres_nativeFilter filt of
         Inl p \<Rightarrow> panicked p st
       | Inr nf \<Rightarrow> returned (uow_FindOneByIdentifier uow ctx nf st)))"

text \<open>\<^verbatim>\<open>FindAll\<close> receives the filter and calls the session's \<^verbatim>\<open>FindAll(ctx)\<close>.\<close>

definition postgres_FindAll ::
  "('ctx, 'id, 'ent, 'p, 'err, 'rb, 'st) postgres_BaseRepository \<Rightarrow>
   'ctx \<Rightarrow>
   ('m, 'p, 'o) Identifier \<Rightarrow>
   'st \<Rightarrow>
   (panic + ('ent list \<times> 'err option)) \<times> 'st" where
  "postgres_FindAll r ctx filt st =
     (let uow = CreateWithContext (factory r) ctx in
      returned (uow_FindAll uow ctx st))"

definition postgres_Insert ::
  "('ctx, 'id, 'ent, 'p, 'err, 'rb, 'st) postgres_BaseRepository \<Rightarrow>
   'ctx \<Rightarrow>
   'ent \<Rightarrow>
   'st \<Rightarrow>
   (panic + ('ent \<times> 'err option)) \<times> 'st" where
  "postgres_Insert r ctx entity st =
     (let uow = CreateWithContext (factory r) ctx in
      returned (uow_Insert uow ctx entity st))"

definition postgres_Update ::
  "('ctx, 'id, 'ent, 'p, 'err, 'rb, 'st) postgres_BaseRepository \<Rightarrow>
   'ctx \<Rightarrow>
   ('m, 'p, 'o) Identifier \<Rightarrow>
   'ent \<Rightarrow>
   'st \<Rightarrow>
   (panic + ('ent \<times> 'err option)) \<times> 'st" where
  "postgres_Update r ctx filt entity st =
     (let uow = CreateWithContext (factory r) ctx in
      (case postgres_nativeFilter filt of
         Inl p \<Rightarrow> panicked p st
       | Inr nf \<Rightarrow> returned (uow_Update uow ctx nf entity st)))"

definition postgres_Delete ::
  "('ctx, 'id, 'ent, 'p, 'err, 'rb, 'st) postgres_BaseRepository \<Rightarrow>
   'ctx \<Rightarrow>
   ('m, 'p, 'o) Identifier \<Rightarrow>
   'st \<Rightarrow>
   (panic + 'err option) \<times> 'st" where
  "postgres_Delete r ctx filt st =
     (let uow = CreateWithContext (factory r) ctx in
      (case postgres_nativeFilter filt of
         Inl p \<Rightarrow> panicked p st
       | Inr nf \<Rightarrow> returned (uow_Delete uow ctx nf st)))"

definition postgres_BulkInsert ::
  "('ctx, 'id, 'ent, 'p, 'err, 'rb, 'st) postgres_BaseRepository \<Rightarrow>
   'ctx \<Rightarrow>
   'ent list \<Rightarrow>
   'st \<Rightarrow>
   (panic + ('ent list \<times> 'err option)) \<times> 'st" where
  "postgres_BulkInsert r ctx entities st =
     (let uow = CreateWithContext (factory r) ctx in
      returned (uow_BulkInsert uow ctx entities st))"

definition postgres_BulkUpdate ::
  "('ctx, 'id, 'ent, 'p, 'err, 'rb, 'st) postgres_BaseRepository \<Rightarrow>
   'ctx \<Rightarrow>
   'ent list \<Rightarrow>
   'st \<Rightarrow>
   (panic + ('ent list \<times> 'err option)) \<times> 'st" where
  "postgres_BulkUpdate r ctx entities st =
     (let uow = CreateWithContext (factory r) ctx in
      returned (uow_BulkUpdate uow ctx entities st))"

text \<open>\<^verbatim>\<open>BulkDelete\<close> ends in the session's \<^verbatim>\<open>BulkHardDelete\<close>.\<close>

definition postgres_BulkDelete ::
  "('ctx, 'id, 'ent, 'p, 'err, 'rb, 'st) postgres_BaseRepository \<Rightarrow>
   'ctx \<Rightarrow>
   ('m, 'p, 'o) Identifier list \<Rightarrow>
   'st \<Rightarrow>
   (panic + 'err option) \<times> 'st" where
  "postgres_BulkDelete r ctx filters st =
     (let uow = CreateWithContext (factory r) ctx in
      (case postgres_nativeFilters filters of
         Inl p \<Rightarrow> panicked p st
       | Inr nfs \<Rightarrow> returned (uow_BulkHardDelete uow ctx nfs st)))"

definition postgres_SoftDelete ::
  "('ctx, 'id, 'ent, 'p, 'err, 'rb, 'st) postgres_BaseRepository \<Rightarrow>
   'ctx \<Rightarrow>
   ('m, 'p, 'o) Identifier \<Rightarrow>
   'st \<Rightarrow>
   (panic + ('ent \<times> 'err option)) \<times> 'st" where
  "postgres_SoftDelete r ctx filt st =
     (let uow = CreateWithContext (factory r) ctx in
      (case postgres_nativeFilter filt of
         Inl p \<Rightarrow> panicked p st
       | Inr nf \<Rightarrow> returned (uow_SoftDelete uow ctx nf st)))"

definition postgres_HardDelete ::
  "('ctx, 'id, 'ent, 'p, 'err, 'rb, 'st) postgres_BaseRepository \<Rightarrow>
   'ctx \<Rightarrow>
   ('m, 'p, 'o) Identifier \<Rightarrow>
   'st \<Rightarrow>
   (panic + ('ent \<times> 'err option)) \<times> 'st" where
  "postgres_HardDelete r ctx filt st =
     (let uow = CreateWithContext (factory r) ctx in
      (case postgres_nativeFilter filt of
         Inl p \<Rightarrow> panicked p st
       | Inr nf \<Rightarrow> returned (uow_HardDelete uow ctx nf st)))"

definition postgres_BulkSoftDelete ::
  "('ctx, 'id, 'ent, 'p, 'err, 'rb, 'st) postgres_BaseRepository \<Rightarrow>
   'ctx \<Rightarrow>
   ('m, 'p, 'o) Identifier list \<Rightarrow>
   'st \<Rightarrow>
   (panic + 'err option) \<times> 'st" where
  "postgres_BulkSoftDelete r ctx filters st =
     (let uow = CreateWithContext (factory r) ctx in
      (case postgres_nativeFilters filters of
         Inl p \<Rightarrow> panicked p st
       | Inr nfs \<Rightarrow> returned (uow_BulkSoftDelete uow ctx nfs st)))"

definition postgres_BulkHardDelete ::
  "('ctx, 'id, 'ent, 'p, 'err, 'rb, 'st) postgres_BaseRepository \<Rightarrow>
   'ctx \<Rightarrow>
   ('m, 'p, 'o) Identifier list \<Rightarrow>
   'st \<Rightarrow>
   (panic + 'err option) \<times> 'st" where
  "postgres_BulkHardDelete r ctx filters st =
     (let uow = CreateWithContext (factory r) ctx in
      (case postgres_nativeFilters filters of
         Inl p \<Rightarrow> panicked p st
       | Inr nfs \<Rightarrow> returned (uow_BulkHardDelete uow ctx nfs st)))"

definition postgres_GetTrashed ::
  "('ctx, 'id, 'ent, 'p, 'err, 'rb, 'st) postgres_BaseRepository \<Rightarrow>
   'ctx \<Rightarrow>
   'st \<Rightarrow>
   (panic + ('ent list \<times> 'err option)) \<times> 'st" where
  "postgres_GetTrashed r ctx st =
     (let uow = CreateWithContext (factory r) ctx in
      returned (uow_GetTrashed uow ctx st))"

definition postgres_Restore ::
  "('ctx, 'id, 'ent, 'p, 'err, 'rb, 'st) postgres_BaseRepository \<Rightarrow>
   'ctx \<Rightarrow>
   ('m, 'p, 'o) Identifier \<Rightarrow>
   'st \<Rightarrow>
   (panic + ('ent \<times> 'err option)) \<times> 'st" where
  "postgres_Restore r ctx filt st =
     (let uow = CreateWithContext (factory r) ctx in
      (case postgres_nativeFilter filt of
         Inl p \<Rightarrow> panicked p st
       | Inr nf \<Rightarrow> returned (uow_Restore uow ctx nf st)))"

definition postgres_RestoreAll ::
  "('ctx, 'id, 'ent, 'p, 'err, 'rb, 'st) postgres_BaseRepository \<Rightarrow>
   'ctx \<Rightarrow>
   'st \<Rightarrow>
   (panic + 'err option) \<times> 'st" where
  "postgres_RestoreAll r ctx st =
     (let uow = CreateWithContext (factory r) ctx in
      returned (uow_RestoreAll uow ctx st))"

definition postgres_BeginTransaction ::
  "('ctx, 'id, 'ent, 'p, 'err, 'rb, 'st) postgres_BaseRepository \<Rightarrow>
   'ctx \<Rightarrow>
   'st \<Rightarrow>
   (panic + 'err option) \<times> 'st" where
  "postgres_BeginTransaction r ctx st =
     (let uow = CreateWithContext (factory r) ctx in
      returned (uow_BeginTransaction uow ctx st))"

definition postgres_CommitTransaction ::
  "('ctx, 'id, 'ent, 'p, 'err, 'rb, 'st) postgres_BaseRepository \<Rightarrow>
   'ctx \<Rightarrow>
   'st \<Rightarrow>
   (panic + 'err option) \<times> 'st" where
  "postgres_CommitTransaction r ctx st =
     (let uow = CreateWithContext (factory r) ctx in
      returned (uow_CommitTransaction uow ctx st))"

text \<open>
  \<^verbatim>\<open>RollbackTransaction\<close> calls the session's rollback as a statement and returns
  \<^verbatim>\<open>nil\<close>: the store is what the rollback left, the result is dropped.
\<close>

definition postgres_RollbackTransaction ::
  "('ctx, 'id, 'ent, 'p, 'err, 'rb, 'st) postgres_BaseRepository \<Rightarrow>
   'ctx \<Rightarrow>
   'st \<Rightarrow>
   (panic + 'err option) \<times> 'st" where
  "postgres_RollbackTransaction r ctx st =
     (let uow = CreateWithContext (factory r) ctx in
      (Inr None, snd (uow_RollbackTransaction uow ctx st)))"

text \<open>
  The paginated reads build the native descriptor, call the session and return its
  entities and error with the count converted by \<^verbatim>\<open>int64(count)\<close>.
\<close>

definition postgres_FindAllWithPagination ::
  "('ctx, 'id, 'ent, 'p, 'err, 'rb, 'st) postgres_BaseRepository \<Rightarrow>
   'ctx \<Rightarrow>
   'ent QueryParams \<Rightarrow>
   'st \<Rightarrow>
   (panic + ('ent list \<times> int \<times> 'err option)) \<times> 'st" where
  "postgres_FindAllWithPagination r ctx params st =
     (let uow = CreateWithContext (factory r) ctx;
          queryParams = postgres_queryParams params
      in (case uow_FindAllWithPagination uow ctx queryParams st of
            ((entities, count, err), st') \<Rightarrow> (Inr (entities, int64 count, err), st')))"

definition postgres_GetTrashedWithPagination ::
  "('ctx, 'id, 'ent, 'p, 'err, 'rb, 'st) postgres_BaseRepository \<Rightarrow>
   'ctx \<Rightarrow>
   'ent QueryParams \<Rightarrow>
   'st \<Rightarrow>
   (panic + ('ent list \<times> int \<times> 'err option)) \<times> 'st" where
  "postgres_GetTrashedWithPagination r ctx params st =
     (let uow = CreateWithContext (factory r) ctx;
          queryParams = postgres_queryParams params
      in (case uow_GetTrashedWithPagination uow ctx queryParams st of
            ((entities, count, err), st') \<Rightarrow> (Inr (entities, int64 count, err), st')))"

section \<open>Deleting the filters one by one\<close>

text \<open>
  The specification's reading of \<^verbatim>\<open>BulkDelete\<close>, to be compared with the facade's
  method: the singular \<^verbatim>\<open>Delete\<close> applied to each filter in turn, ending at the first
  panic or error.
\<close>

fun mongo_spec_BulkDelete ::
  "('ctx, 'id, 'ent, 'm, 'err, 'rb, 'st) mongo_BaseRepository \<Rightarrow>
   'ctx \<Rightarrow>
   ('m, 'p, 'o) Identifier list \<Rightarrow>
   'st \<Rightarrow>
   (panic + 'err option) \<times> 'st" where
  "mongo_spec_BulkDelete r ctx [] st = (Inr None, st)"
| "mongo_spec_BulkDelete r ctx (filt # filters) st =
     (case mongo_Delete r ctx filt st of
        (Inr None, st') \<Rightarrow> mongo_spec_BulkDelete r ctx filters st'
      | (Inr (Some e), st') \<Rightarrow> (Inr (Some e), st')
      | (Inl p, st') \<Rightarrow> (Inl p, st'))"

fun postgres_spec_BulkDelete ::
  "('ctx, 'id, 'ent, 'p, 'err, 'rb, 'st) postgres_BaseRepository \<Rightarrow>
   'ctx \<Rightarrow>
   ('m, 'p, 'o) Identifier list \<Rightarrow>
   'st \<Rightarrow>
   (panic + 'err option) \<times> 'st" where
  "postgres_spec_BulkDelete r ctx [] st = (Inr None, st)"
| "postgres_spec_BulkDelete r ctx (filt # filters) st =
     (case postgres_Delete r ctx filt st of
        (Inr None, st') \<Rightarrow> postgres_spec_BulkDelete r ctx filters st'
      | (Inr (Some e), st') \<Rightarrow> (Inr (Some e), st')
      | (Inl p, st') \<Rightarrow> (Inl p, st'))"

section \<open>A session that records its calls\<close>

text \<open>
  A stand-in for a session, used to run the facade on concrete inputs: its state is the
  list of calls made so far, each call appends its name with the native filters it was
  given, every entity result is \<open>e\<close> and every error result is \<open>err\<close>.
\<close>

datatype 'nf uow_call = Called string "'nf list"

definition recording_uow ::
  "'ent \<Rightarrow> 'err option \<Rightarrow>
   (unit, unit, 'ent, 'nf, 'nd, 'err, 'err option, 'nf uow_call list) UnitOfWork" where
  "recording_uow e err =
     \<lparr>uow_FindOneById = (\<lambda>ctx ident st. ((e, err), st @ [Called ''FindOneById'' []])),
      uow_FindOneByIdentifier =
        (\<lambda>ctx nf st. ((e, err), st @ [Called ''FindOneByIdentifier'' [nf]])),
      uow_FindAll = (\<lambda>ctx st. (([e], err), st @ [Called ''FindAll'' []])),
      uow_FindAllWithPagination =
        (\<lambda>ctx qp st. (([e], 1, err), st @ [Called ''FindAllWithPagination'' []])),
      uow_Insert = (\<lambda>ctx entity st. ((entity, err), st @ [Called ''Insert'' []])),
      uow_Update = (\<lambda>ctx nf entity st. ((entity, err), st @ [Called ''Update'' [nf]])),
      uow_Delete = (\<lambda>ctx nf st. (err, st @ [Called ''Delete'' [nf]])),
      uow_BulkInsert = (\<lambda>ctx entities st. ((entities, err), st @ [Called ''BulkInsert'' []])),
      uow_BulkUpdate = (\<lambda>ctx entities st. ((entities, err), st @ [Called ''BulkUpdate'' []])),
      uow_SoftDelete = (\<lambda>ctx nf st. ((e, err), st @ [Called ''SoftDelete'' [nf]])),
      uow_HardDelete = (\<lambda>ctx nf st. ((e, err), st @ [Called ''HardDelete'' [nf]])),
      uow_BulkSoftDelete = (\<lambda>ctx nfs st. (err, st @ [Called ''BulkSoftDelete'' nfs])),
      uow_BulkHardDelete = (\<lambda>ctx nfs st. (err, st @ [Called ''BulkHardDelete'' nfs])),
      uow_GetTrashed = (\<lambda>ctx st. (([e], err), st @ [Called ''GetTrashed'' []])),
      uow_GetTrashedWithPagination =
        (\<lambda>ctx qp st. (([e], 1, err), st @ [Called ''GetTrashedWithPagination'' []])),
      uow_Restore = (\<lambda>ctx nf st. ((e, err), st @ [Called ''Restore'' [nf]])),
      uow_RestoreAll = (\<lambda>ctx st. (err, st @ [Called ''RestoreAll'' []])),
      uow_BeginTransaction = (\<lambda>ctx st. (err, st @ [Called ''BeginTransaction'' []])),
      uow_CommitTransaction = (\<lambda>ctx st. (err, st @ [Called ''CommitTransaction'' []])),
      uow_RollbackTransaction =
        (\<lambda>ctx st. (err, st @ [Called ''RollbackTransaction'' []]))\<rparr>"

definition recording_repository ::
  "'ent \<Rightarrow> 'err option \<Rightarrow>
   (unit, unit, 'ent, 'nf, 'nd, 'err, 'err option, 'nf uow_call list) BaseRepository" where
  "recording_repository e err = \<lparr>factory = (\<lambda>ctx. recording_uow e err)\<rparr>"

section \<open>The conversion loop, entry by entry\<close>

text \<open>
  The \<^verbatim>\<open>for field, direction := range sort\<close> loop of \<^verbatim>\<open>convertSortMap\<close>, run over
  the entries of the map in whatever order the iteration produces them.
\<close>

fun mongo_convertSortEntries ::
  "(string \<times> SortDirection) list \<Rightarrow> (string \<rightharpoonup> mongoDomain_SortDirection) \<Rightarrow>
   (string \<rightharpoonup> mongoDomain_SortDirection)" where
  "mongo_convertSortEntries [] mongoSort = mongoSort"
| "mongo_convertSortEntries ((field, direction) # entries) mongoSort =
     mongo_convertSortEntries entries
       (if direction = SortAsc then mongoSort(field \<mapsto> MongoSortAsc)
        else if direction = SortDesc then mongoSort(field \<mapsto> MongoSortDesc)
        else mongoSort)"

fun postgres_convertSortEntries ::
  "(string \<times> SortDirection) list \<Rightarrow> (string \<rightharpoonup> postgresDomain_SortDirection) \<Rightarrow>
   (string \<rightharpoonup> postgresDomain_SortDirection)" where
  "postgres_convertSortEntries [] postgresSort = postgresSort"
| "postgres_convertSortEntries ((field, direction) # entries) postgresSort =
     postgres_convertSortEntries entries
       (if direction = SortAsc then postgresSort(field \<mapsto> PostgresSortAsc)
        else if direction = SortDesc then postgresSort(field \<mapsto> PostgresSortDesc)
        else postgresSort)"

section \<open>Properties of the unified identifier\<close>

lemmas builder_defs = Equal_def GreaterThan_def LessThan_def Between_def Like_def In_def

subsection \<open>Which representation is populated\<close>

lemma apply_call_mongoID_nil: "(mongoID (apply_call N u c) = None) = (mongoID u = None)"
  by (cases c) (auto simp: builder_defs Let_def split: option.splits)

lemma apply_call_postgresID_nil:
  "(postgresID (apply_call N u c) = None) = (postgresID u = None)"
  by (cases c) (auto simp: builder_defs Let_def split: option.splits)

lemma apply_calls_mongoID_nil: "(mongoID (apply_calls N u cs) = None) = (mongoID u = None)"
  unfolding apply_calls_def
  by (induction cs arbitrary: u) (simp_all add: apply_call_mongoID_nil)

lemma apply_calls_postgresID_nil:
  "(postgresID (apply_calls N u cs) = None) = (postgresID u = None)"
  unfolding apply_calls_def
  by (induction cs arbitrary: u) (simp_all add: apply_call_postgresID_nil)

lemma constructors_one_sided:
  "mongoID (NewMongoIdentifier N) \<noteq> None"
  "postgresID (NewMongoIdentifier N) = None"
  "mongoID (NewPostgresIdentifier N) = None"
  "postgresID (NewPostgresIdentifier N) \<noteq> None"
  by (simp_all add: NewMongoIdentifier_def NewPostgresIdentifier_def)

lemma builders_keep_nil:
  "(mongoID (Equal N u f v) = None) = (mongoID u = None)"
  "(postgresID (Equal N u f v) = None) = (postgresID u = None)"
  "(mongoID (GreaterThan N u f v) = None) = (mongoID u = None)"
  "(postgresID (GreaterThan N u f v) = None) = (postgresID u = None)"
  "(mongoID (LessThan N u f v) = None) = (mongoID u = None)"
  "(postgresID (LessThan N u f v) = None) = (postgresID u = None)"
  "(mongoID (Between N u f lo hi) = None) = (mongoID u = None)"
  "(postgresID (Between N u f lo hi) = None) = (postgresID u = None)"
  "(mongoID (Like N u f pat) = None) = (mongoID u = None)"
  "(postgresID (Like N u f pat) = None) = (postgresID u = None)"
  "(mongoID (In N u f vs) = None) = (mongoID u = None)"
  "(postgresID (In N u f vs) = None) = (postgresID u = None)"
  using apply_call_mongoID_nil [of N u "CallEqual f v"]
    apply_call_postgresID_nil [of N u "CallEqual f v"]
    apply_call_mongoID_nil [of N u "CallGreaterThan f v"]
    apply_call_postgresID_nil [of N u "CallGreaterThan f v"]
    apply_call_mongoID_nil [of N u "CallLessThan f v"]
    apply_call_postgresID_nil [of N u "CallLessThan f v"]
    apply_call_mongoID_nil [of N u "CallBetween f lo hi"]
    apply_call_postgresID_nil [of N u "CallBetween f lo hi"]
    apply_call_mongoID_nil [of N u "CallLike f pat"]
    apply_call_postgresID_nil [of N u "CallLike f pat"]
    apply_call_mongoID_nil [of N u "CallIn f vs"]
    apply_call_postgresID_nil [of N u "CallIn f vs"]
  by simp_all

lemma reachable_one_sided:
  "mongoID (apply_calls N (NewMongoIdentifier N) cs) \<noteq> None"
  "postgresID (apply_calls N (NewMongoIdentifier N) cs) = None"
  "mongoID (apply_calls N (NewPostgresIdentifier N) cs) = None"
  "postgresID (apply_calls N (NewPostgresIdentifier N) cs) \<noteq> None"
  by (simp_all add: apply_calls_mongoID_nil apply_calls_postgresID_nil constructors_one_sided)

lemma mongo_mode_reachable:
  "\<exists>m. apply_calls N (NewMongoIdentifier N) cs = \<lparr>mongoID = Some m, postgresID = None\<rparr>"
  using reachable_one_sided(1,2) [of N cs]
  by (cases "apply_calls N (NewMongoIdentifier N) cs") auto

lemma postgres_mode_reachable:
  "\<exists>p. apply_calls N (NewPostgresIdentifier N) cs = \<lparr>mongoID = None, postgresID = Some p\<rparr>"
  using reachable_one_sided(3,4) [of N cs]
  by (cases "apply_calls N (NewPostgresIdentifier N) cs") auto

text \<open>
  C8. Whatever the two native builders are, each constructor populates exactly one of the
  two native representations, and no predicate-builder operation changes whether a
  representation is \<^verbatim>\<open>nil\<close>: after any sequence of builder calls on a constructed
  identifier the selected representation is still there and the other one is still
  \<^verbatim>\<open>nil\<close>.
\<close>

theorem exactly_one_representation:
  "mongoID (NewMongoIdentifier N) \<noteq> None \<and> postgresID (NewMongoIdentifier N) = None
   \<and> mongoID (NewPostgresIdentifier N) = None \<and> postgresID (NewPostgresIdentifier N) \<noteq> None
   \<and> (mongoID (Equal N u f v) = None) = (mongoID u = None)
   \<and> (postgresID (Equal N u f v) = None) = (postgresID u = None)
   \<and> (mongoID (GreaterThan N u f v) = None) = (mongoID u = None)
   \<and> (postgresID (GreaterThan N u f v) = None) = (postgresID u = None)
   \<and> (mongoID (LessThan N u f v) = None) = (mongoID u = None)
   \<and> (postgresID (LessThan N u f v) = None) = (postgresID u = None)
   \<and> (mongoID (Between N u f lo hi) = None) = (mongoID u = None)
   \<and> (postgresID (Between N u f lo hi) = None) = (postgresID u = None)
   \<and> (mongoID (Like N u f pat) = None) = (mongoID u = None)
   \<and> (postgresID (Like N u f pat) = None) = (postgresID u = None)
   \<and> (mongoID (In N u f vs) = None) = (mongoID u = None)
   \<and> (postgresID (In N u f vs) = None) = (postgresID u = None)
   \<and> mongoID (apply_calls N (NewMongoIdentifier N) cs) \<noteq> None
   \<and> postgresID (apply_calls N (NewMongoIdentifier N) cs) = None
   \<and> mongoID (apply_calls N (NewPostgresIdentifier N) cs) = None
   \<and> postgresID (apply_calls N (NewPostgresIdentifier N) cs) \<noteq> None"
  by (simp add: constructors_one_sided builders_keep_nil reachable_one_sided)

text \<open>
  C7. Whatever the two native builders are, on an identifier built in Mongo mode
  \<^verbatim>\<open>ToMap\<close> returns the empty map, and on one built in Postgres mode \<^verbatim>\<open>ToBSON\<close>
  returns the empty map, whatever predicate calls were made on it.
\<close>

theorem unselected_extraction_is_empty:
  "ToMap N (apply_calls N (NewMongoIdentifier N) cs) = Map.empty
   \<and> ToBSON N (apply_calls N (NewPostgresIdentifier N) cs) = Map.empty"
  by (simp add: ToMap_def ToBSON_def reachable_one_sided)

subsection \<open>The builders on a one-sided identifier\<close>

text \<open>
  On an identifier with one representation, each wrapper method is the native method on
  that representation.
\<close>

lemma mongo_mode:
  "Equal N \<lparr>mongoID = Some m, postgresID = None\<rparr> f v =
     \<lparr>mongoID = Some (mongo_Equal N m f v), postgresID = None\<rparr>"
  "GreaterThan N \<lparr>mongoID = Some m, postgresID = None\<rparr> f v =
     \<lparr>mongoID = Some (mongo_GreaterThan N m f v), postgresID = None\<rparr>"
  "ToBSON N \<lparr>mongoID = Some m, postgresID = None\<rparr> = mongo_ToBSON N m"
  "Has N \<lparr>mongoID = Some m, postgresID = None\<rparr> f = mongo_Has N m f"
  by (simp_all add: Equal_def GreaterThan_def ToBSON_def Has_def)

lemma postgres_mode:
  "Equal N \<lparr>mongoID = None, postgresID = Some p\<rparr> f v =
     \<lparr>mongoID = None, postgresID = Some (postgres_Equal N p f v)\<rparr>"
  "GreaterThan N \<lparr>mongoID = None, postgresID = Some p\<rparr> f v =
     \<lparr>mongoID = None, postgresID = Some (postgres_GreaterThan N p f v)\<rparr>"
  "ToMap N \<lparr>mongoID = None, postgresID = Some p\<rparr> = postgres_ToMap N p"
  "Has N \<lparr>mongoID = None, postgresID = Some p\<rparr> f = (postgres_ToMap N p f \<noteq> None)"
  by (simp_all add: Equal_def GreaterThan_def ToMap_def Has_def)

subsection \<open>With the builders of the specification\<close>

lemma spec_simps:
  "mongo_New spec_identifiers = Map.empty"
  "mongo_Equal spec_identifiers ps f v = record_predicate f OpEqual (Value v) ps"
  "mongo_GreaterThan spec_identifiers ps f v = record_predicate f OpGreaterThan (Value v) ps"
  "mongo_LessThan spec_identifiers ps f v = record_predicate f OpLessThan (Value v) ps"
  "mongo_Between spec_identifiers ps f lo hi = record_predicate f OpBetween (Range lo hi) ps"
  "mongo_Like spec_identifiers ps f pat = record_predicate f OpLike (Pattern pat) ps"
  "mongo_In spec_identifiers ps f vs = record_predicate f OpIn (Values vs) ps"
  "mongo_ToBSON spec_identifiers ps = ps"
  "mongo_Has spec_identifiers ps f = (ps f \<noteq> None)"
  "postgres_NewIdentifier spec_identifiers = Map.empty"
  "postgres_Equal spec_identifiers ps f v = record_predicate f OpEqual (Value v) ps"
  "postgres_GreaterThan spec_identifiers ps f v =
     record_predicate f OpGreaterThan (Value v) ps"
  "postgres_LessThan spec_identifiers ps f v = record_predicate f OpLessThan (Value v) ps"
  "postgres_Between spec_identifiers ps f lo hi =
     record_predicate f OpBetween (Range lo hi) ps"
  "postgres_Like spec_identifiers ps f pat = record_predicate f OpLike (Pattern pat) ps"
  "postgres_In spec_identifiers ps f vs = record_predicate f OpIn (Values vs) ps"
  "postgres_ToMap spec_identifiers ps = ps"
  by (simp_all add: spec_identifiers_def)

lemma record_predicate_same:
  "record_predicate f opr y (record_predicate f opr x ps) = record_predicate f opr y ps"
  by (auto simp: record_predicate_def fun_eq_iff split: option.splits)

lemma record_predicate_commute:
  "f \<noteq> g \<Longrightarrow>
   record_predicate g o2 y (record_predicate f o1 x ps) =
   record_predicate f o1 x (record_predicate g o2 y ps)"
  by (auto simp: record_predicate_def fun_eq_iff split: option.splits)

lemma record_predicate_at:
  "\<exists>m. record_predicate f opr x ps f = Some m \<and> m opr = Some x"
  by (simp add: record_predicate_def)

text \<open>
  C4. With the builders of the specification, on an identifier built by either
  constructor and any builder calls, \<^verbatim>\<open>Equal(f, v)\<close> makes \<^verbatim>\<open>Has(f)\<close> true, and the
  extraction of the constructing backend (\<^verbatim>\<open>ToBSON\<close> in Mongo mode, \<^verbatim>\<open>ToMap\<close> in
  Postgres mode) holds an equality predicate with value \<open>v\<close> under \<open>f\<close>.
\<close>

theorem Equal_then_Has_and_extraction:
  "Has spec_identifiers
     (Equal spec_identifiers
        (apply_calls spec_identifiers (NewMongoIdentifier spec_identifiers) cs) f v) f
   \<and> (\<exists>ps. ToBSON spec_identifiers
              (Equal spec_identifiers
                 (apply_calls spec_identifiers (NewMongoIdentifier spec_identifiers) cs) f v) f
            = Some ps
           \<and> ps OpEqual = Some (Value v))
   \<and> Has spec_identifiers
     (Equal spec_identifiers
        (apply_calls spec_identifiers (NewPostgresIdentifier spec_identifiers) cs) f v) f
   \<and> (\<exists>ps. ToMap spec_identifiers
              (Equal spec_identifiers
                 (apply_calls spec_identifiers (NewPostgresIdentifier spec_identifiers) cs) f v) f
            = Some ps
           \<and> ps OpEqual = Some (Value v))"
proof -
  obtain m where m:
    "apply_calls spec_identifiers (NewMongoIdentifier spec_identifiers) cs =
       \<lparr>mongoID = Some m, postgresID = None\<rparr>"
    using mongo_mode_reachable [of spec_identifiers cs] by blast
  obtain p where p:
    "apply_calls spec_identifiers (NewPostgresIdentifier spec_identifiers) cs =
       \<lparr>mongoID = None, postgresID = Some p\<rparr>"
    using postgres_mode_reachable [of spec_identifiers cs] by blast
  have at: "\<exists>ps. record_predicate f OpEqual (Value v) q f = Some ps
              \<and> ps OpEqual = Some (Value v)" for q :: "'a predicates"
    by (rule record_predicate_at)
  show ?thesis
    unfolding m p mongo_mode postgres_mode spec_simps
    using at [of m] at [of p] by auto
qed

subsection \<open>Repeating and reordering predicates\<close>

lemma repeated_builder:
  "Equal spec_identifiers (Equal spec_identifiers u f v1) f v2 = Equal spec_identifiers u f v2"
  "GreaterThan spec_identifiers (GreaterThan spec_identifiers u f v1) f v2 =
     GreaterThan spec_identifiers u f v2"
  "LessThan spec_identifiers (LessThan spec_identifiers u f v1) f v2 =
     LessThan spec_identifiers u f v2"
  "Between spec_identifiers (Between spec_identifiers u f lo1 hi1) f lo2 hi2 =
     Between spec_identifiers u f lo2 hi2"
  "Like spec_identifiers (Like spec_identifiers u f p1) f p2 = Like spec_identifiers u f p2"
  "In spec_identifiers (In spec_identifiers u f vs1) f vs2 = In spec_identifiers u f vs2"
  by (cases "mongoID u"; cases "postgresID u";
      simp add: builder_defs Let_def spec_simps record_predicate_same)+

lemma fresh_Equal_Equal:
  "ToBSON spec_identifiers
     (Equal spec_identifiers (Equal spec_identifiers (NewMongoIdentifier spec_identifiers) f v1)
        f v2) = [f \<mapsto> [OpEqual \<mapsto> Value v2]]"
  "ToMap spec_identifiers
     (Equal spec_identifiers
        (Equal spec_identifiers (NewPostgresIdentifier spec_identifiers) f v1) f v2) =
     [f \<mapsto> [OpEqual \<mapsto> Value v2]]"
  by (simp_all add: ToBSON_def ToMap_def Equal_def NewMongoIdentifier_def
      NewPostgresIdentifier_def spec_simps record_predicate_def)

lemma fresh_Equal_GreaterThan:
  "ToBSON spec_identifiers
     (GreaterThan spec_identifiers
        (Equal spec_identifiers (NewMongoIdentifier spec_identifiers) f v1) f v2) =
     [f \<mapsto> [OpEqual \<mapsto> Value v1, OpGreaterThan \<mapsto> Value v2]]"
  "ToMap spec_identifiers
     (GreaterThan spec_identifiers
        (Equal spec_identifiers (NewPostgresIdentifier spec_identifiers) f v1) f v2) =
     [f \<mapsto> [OpEqual \<mapsto> Value v1, OpGreaterThan \<mapsto> Value v2]]"
  by (simp_all add: ToBSON_def ToMap_def Equal_def GreaterThan_def NewMongoIdentifier_def
      NewPostgresIdentifier_def spec_simps record_predicate_def)

lemma apply_call_one_sided:
  "apply_call spec_identifiers \<lparr>mongoID = Some m, postgresID = None\<rparr> c =
     \<lparr>mongoID = Some (record_predicate (call_field c) (call_operator c) (call_operand c) m),
      postgresID = None\<rparr>"
  "apply_call spec_identifiers \<lparr>mongoID = None, postgresID = Some p\<rparr> c =
     \<lparr>mongoID = None,
      postgresID = Some (record_predicate (call_field c) (call_operator c) (call_operand c) p)\<rparr>"
  by (cases c; simp add: builder_defs spec_simps)+

lemma record_predicate_twice:
  "\<exists>ps. record_predicate f o2 y (record_predicate f o1 x q) f = Some ps
        \<and> ps o2 = Some y \<and> ps o1 = Some (if o1 = o2 then y else x)"
  by (simp add: record_predicate_def)

lemma two_calls_on_one_field:
  assumes "call_field c1 = f" and "call_field c2 = f"
  shows "\<exists>ps. ToBSON spec_identifiers
           (apply_call spec_identifiers
              (apply_call spec_identifiers
                 (apply_calls spec_identifiers (NewMongoIdentifier spec_identifiers) cs) c1)
              c2) f = Some ps
         \<and> ps (call_operator c2) = Some (call_operand c2)
         \<and> ps (call_operator c1) =
             Some (if call_operator c1 = call_operator c2 then call_operand c2
                   else call_operand c1)"
    and "\<exists>ps. ToMap spec_identifiers
           (apply_call spec_identifiers
              (apply_call spec_identifiers
                 (apply_calls spec_identifiers (NewPostgresIdentifier spec_identifiers) cs) c1)
              c2) f = Some ps
         \<and> ps (call_operator c2) = Some (call_operand c2)
         \<and> ps (call_operator c1) =
             Some (if call_operator c1 = call_operator c2 then call_operand c2
                   else call_operand c1)"
proof -
  obtain m where m:
    "apply_calls spec_identifiers (NewMongoIdentifier spec_identifiers) cs =
       \<lparr>mongoID = Some m, postgresID = None\<rparr>"
    using mongo_mode_reachable [of spec_identifiers cs] by blast
  obtain p where p:
    "apply_calls spec_identifiers (NewPostgresIdentifier spec_identifiers) cs =
       \<lparr>mongoID = None, postgresID = Some p\<rparr>"
    using postgres_mode_reachable [of spec_identifiers cs] by blast
  show "\<exists>ps. ToBSON spec_identifiers
           (apply_call spec_identifiers
              (apply_call spec_identifiers
                 (apply_calls spec_identifiers (NewMongoIdentifier spec_identifiers) cs) c1)
              c2) f = Some ps
         \<and> ps (call_operator c2) = Some (call_operand c2)
         \<and> ps (call_operator c1) =
             Some (if call_operator c1 = call_operator c2 then call_operand c2
                   else call_operand c1)"
    unfolding m apply_call_one_sided mongo_mode spec_simps assms
    by (rule record_predicate_twice)
  show "\<exists>ps. ToMap spec_identifiers
           (apply_call spec_identifiers
              (apply_call spec_identifiers
                 (apply_calls spec_identifiers (NewPostgresIdentifier spec_identifiers) cs) c1)
              c2) f = Some ps
         \<and> ps (call_operator c2) = Some (call_operand c2)
         \<and> ps (call_operator c1) =
             Some (if call_operator c1 = call_operator c2 then call_operand c2
                   else call_operand c1)"
    unfolding p apply_call_one_sided postgres_mode spec_simps assms
    by (rule record_predicate_twice)
qed

text \<open>
  C5. With the builders of the specification, take any two builder calls \<open>c1\<close> and
  \<open>c2\<close> on one field \<open>f\<close>, made one after the other on an identifier built by either
  constructor and any earlier calls. The extraction of the constructing backend then
  holds, under \<open>f\<close>, the predicate of \<open>c2\<close>; when \<open>c1\<close> has the same operator its
  predicate has been replaced by that of \<open>c2\<close>, and when it has a different operator its
  own predicate is still there. For each of the six builders a repeated call leaves the
  identifier that the second call alone would have left, and on a fresh identifier
  \<^verbatim>\<open>Equal(f, v1).Equal(f, v2)\<close> extracts to the single predicate \<open>f = v2\<close> while
  \<^verbatim>\<open>Equal(f, v1).GreaterThan(f, v2)\<close> extracts to both predicates.
\<close>

theorem same_operator_overwrites:
  assumes "call_field c1 = f" and "call_field c2 = f"
  shows "(\<exists>ps. ToBSON spec_identifiers
           (apply_call spec_identifiers
              (apply_call spec_identifiers
                 (apply_calls spec_identifiers (NewMongoIdentifier spec_identifiers) cs) c1)
              c2) f = Some ps
         \<and> ps (call_operator c2) = Some (call_operand c2)
         \<and> ps (call_operator c1) =
             Some (if call_operator c1 = call_operator c2 then call_operand c2
                   else call_operand c1))
   \<and> (\<exists>ps. ToMap spec_identifiers
           (apply_call spec_identifiers
              (apply_call spec_identifiers
                 (apply_calls spec_identifiers (NewPostgresIdentifier spec_identifiers) cs) c1)
              c2) f = Some ps
         \<and> ps (call_operator c2) = Some (call_operand c2)
         \<and> ps (call_operator c1) =
             Some (if call_operator c1 = call_operator c2 then call_operand c2
                   else call_operand c1))
   \<and> Equal spec_identifiers (Equal spec_identifiers u f v1) f v2 = Equal spec_identifiers u f v2
   \<and> GreaterThan spec_identifiers (GreaterThan spec_identifiers u f v1) f v2 =
       GreaterThan spec_identifiers u f v2
   \<and> LessThan spec_identifiers (LessThan spec_identifiers u f v1) f v2 =
       LessThan spec_identifiers u f v2
   \<and> Between spec_identifiers (Between spec_identifiers u f lo1 hi1) f lo2 hi2 =
       Between spec_identifiers u f lo2 hi2
   \<and> Like spec_identifiers (Like spec_identifiers u f p1) f p2 = Like spec_identifiers u f p2
   \<and> In spec_identifiers (In spec_identifiers u f vs1) f vs2 = In spec_identifiers u f vs2
   \<and> ToBSON spec_identifiers
        (Equal spec_identifiers
           (Equal spec_identifiers (NewMongoIdentifier spec_identifiers) f v1) f v2) =
       [f \<mapsto> [OpEqual \<mapsto> Value v2]]
   \<and> ToMap spec_identifiers
        (Equal spec_identifiers
           (Equal spec_identifiers (NewPostgresIdentifier spec_identifiers) f v1) f v2) =
       [f \<mapsto> [OpEqual \<mapsto> Value v2]]
   \<and> ToBSON spec_identifiers
        (GreaterThan spec_identifiers
           (Equal spec_identifiers (NewMongoIdentifier spec_identifiers) f v1) f v2) =
       [f \<mapsto> [OpEqual \<mapsto> Value v1, OpGreaterThan \<mapsto> Value v2]]
   \<and> ToMap spec_identifiers
        (GreaterThan spec_identifiers
           (Equal spec_identifiers (NewPostgresIdentifier spec_identifiers) f v1) f v2) =
       [f \<mapsto> [OpEqual \<mapsto> Value v1, OpGreaterThan \<mapsto> Value v2]]"
  by (intro conjI two_calls_on_one_field [OF assms] repeated_builder fresh_Equal_Equal
      fresh_Equal_GreaterThan)

theorem same_operator_overwrites_witness:
  "call_field (CallLessThan ''age'' (65::int)) = ''age''
   \<and> call_field (CallIn ''age'' [1::int, 2]) = ''age''
   \<and> (\<exists>ps. ToBSON spec_identifiers
           (apply_call spec_identifiers
              (apply_call spec_identifiers (NewMongoIdentifier spec_identifiers)
                 (CallLessThan ''age'' (65::int)))
              (CallIn ''age'' [1, 2])) ''age'' = Some ps
         \<and> ps OpIn = Some (Values [1, 2]) \<and> ps OpLessThan = Some (Value 65))
   \<and> call_field (CallBetween ''score'' (50::int) 100) = ''score''
   \<and> call_field (CallBetween ''score'' (0::int) 10) = ''score''
   \<and> (\<exists>ps. ToMap spec_identifiers
           (apply_call spec_identifiers
              (apply_call spec_identifiers (NewPostgresIdentifier spec_identifiers)
                 (CallBetween ''score'' (50::int) 100))
              (CallBetween ''score'' 0 10)) ''score'' = Some ps
         \<and> ps OpBetween = Some (Range 0 10))"
proof -
  have a1: "call_field (CallLessThan ''age'' (65::int)) = ''age''"
    and a2: "call_field (CallIn ''age'' [1::int, 2]) = ''age''"
    and b1: "call_field (CallBetween ''score'' (50::int) 100) = ''score''"
    and b2: "call_field (CallBetween ''score'' (0::int) 10) = ''score''"
    by simp_all
  have A: "\<exists>ps. ToBSON spec_identifiers
           (apply_call spec_identifiers
              (apply_call spec_identifiers (NewMongoIdentifier spec_identifiers)
                 (CallLessThan ''age'' (65::int)))
              (CallIn ''age'' [1, 2])) ''age'' = Some ps
         \<and> ps OpIn = Some (Values [1, 2]) \<and> ps OpLessThan = Some (Value 65)"
    using same_operator_overwrites [OF a1 a2, where cs = "[]", THEN conjunct1]
    by (simp add: apply_calls_def)
  have B: "\<exists>ps. ToMap spec_identifiers
           (apply_call spec_identifiers
              (apply_call spec_identifiers (NewPostgresIdentifier spec_identifiers)
                 (CallBetween ''score'' (50::int) 100))
              (CallBetween ''score'' 0 10)) ''score'' = Some ps
         \<and> ps OpBetween = Some (Range 0 10)"
    using same_operator_overwrites [OF b1 b2, where cs = "[]", THEN conjunct2, THEN conjunct1]
    by (simp add: apply_calls_def)
  from a1 a2 A b1 b2 B show ?thesis by (intro conjI)
qed

lemma Equal_GreaterThan_commute:
  "a \<noteq> b \<Longrightarrow>
   GreaterThan spec_identifiers (Equal spec_identifiers u a v1) b v2 =
   Equal spec_identifiers (GreaterThan spec_identifiers u b v2) a v1"
  by (cases "mongoID u"; cases "postgresID u")
    (simp_all add: Equal_def GreaterThan_def Let_def spec_simps record_predicate_commute)

text \<open>
  C6. With the builders of the specification, for distinct fields \<open>a\<close> and \<open>b\<close>,
  \<^verbatim>\<open>Equal(a, v1).GreaterThan(b, v2)\<close> and \<^verbatim>\<open>GreaterThan(b, v2).Equal(a, v1)\<close> applied to
  the same identifier give the same \<^verbatim>\<open>ToBSON\<close> and the same \<^verbatim>\<open>ToMap\<close>.
\<close>

theorem distinct_fields_order_irrelevant:
  assumes "a \<noteq> b"
  shows "ToBSON spec_identifiers
           (GreaterThan spec_identifiers (Equal spec_identifiers u a v1) b v2) =
         ToBSON spec_identifiers
           (Equal spec_identifiers (GreaterThan spec_identifiers u b v2) a v1)
       \<and> ToMap spec_identifiers
           (GreaterThan spec_identifiers (Equal spec_identifiers u a v1) b v2) =
         ToMap spec_identifiers
           (Equal spec_identifiers (GreaterThan spec_identifiers u b v2) a v1)"
  using assms by (simp add: Equal_GreaterThan_commute)

theorem distinct_fields_order_irrelevant_witness:
  "''a'' \<noteq> ''b''
   \<and> ToBSON spec_identifiers
       (GreaterThan spec_identifiers
          (Equal spec_identifiers (NewMongoIdentifier spec_identifiers) ''a'' (1::int))
          ''b'' 2) =
       [''a'' \<mapsto> [OpEqual \<mapsto> Value 1], ''b'' \<mapsto> [OpGreaterThan \<mapsto> Value 2]]
   \<and> ToBSON spec_identifiers
       (Equal spec_identifiers
          (GreaterThan spec_identifiers (NewMongoIdentifier spec_identifiers) ''b'' (2::int))
          ''a'' 1) =
       [''a'' \<mapsto> [OpEqual \<mapsto> Value 1], ''b'' \<mapsto> [OpGreaterThan \<mapsto> Value 2]]
   \<and> ToMap spec_identifiers
       (GreaterThan spec_identifiers
          (Equal spec_identifiers (NewPostgresIdentifier spec_identifiers) ''a'' (1::int))
          ''b'' 2) =
       ToMap spec_identifiers
       (Equal spec_identifiers
          (GreaterThan spec_identifiers (NewPostgresIdentifier spec_identifiers) ''b'' 2)
          ''a'' 1)"
proof -
  have ne: "''a'' \<noteq> ''b''" by simp
  have l: "ToBSON spec_identifiers
       (GreaterThan spec_identifiers
          (Equal spec_identifiers (NewMongoIdentifier spec_identifiers) ''a'' (1::int))
          ''b'' 2) =
       [''a'' \<mapsto> [OpEqual \<mapsto> Value 1], ''b'' \<mapsto> [OpGreaterThan \<mapsto> Value 2]]"
    by (simp add: ToBSON_def Equal_def GreaterThan_def NewMongoIdentifier_def spec_simps
        record_predicate_def)
  from distinct_fields_order_irrelevant
      [OF ne, of "NewMongoIdentifier spec_identifiers" "1::int" 2]
    distinct_fields_order_irrelevant
      [OF ne, of "NewPostgresIdentifier spec_identifiers" "1::int" 2] l ne
  show ?thesis by simp
qed

section \<open>Properties of the facades\<close>

lemmas call_defs = returned_def panicked_def CreateWithContext_def

subsection \<open>Sort translation\<close>

lemma mongo_convertSortEntries_lookup:
  "distinct (map fst es) \<Longrightarrow>
   mongo_convertSortEntries es acc =
     (\<lambda>f. case map_of es f of
            None \<Rightarrow> acc f
          | Some d \<Rightarrow>
              if d = SortAsc then Some MongoSortAsc
              else if d = SortDesc then Some MongoSortDesc
              else acc f)"
proof (induction es arbitrary: acc)
  case Nil
  then show ?case by simp
next
  case (Cons e es)
  obtain k d where e: "e = (k, d)" by (cases e)
  from Cons.prems e have k: "map_of es k = None" and dist: "distinct (map fst es)"
    by (auto simp: map_of_eq_None_iff)
  show ?case
    unfolding e
    by (auto simp add: Cons.IH [OF dist] k fun_eq_iff split: option.splits)
qed

lemma postgres_convertSortEntries_lookup:
  "distinct (map fst es) \<Longrightarrow>
   postgres_convertSortEntries es acc =
     (\<lambda>f. case map_of es f of
            None \<Rightarrow> acc f
          | Some d \<Rightarrow>
              if d = SortAsc then Some PostgresSortAsc
              else if d = SortDesc then Some PostgresSortDesc
              else acc f)"
proof (induction es arbitrary: acc)
  case Nil
  then show ?case by simp
next
  case (Cons e es)
  obtain k d where e: "e = (k, d)" by (cases e)
  from Cons.prems e have k: "map_of es k = None" and dist: "distinct (map fst es)"
    by (auto simp: map_of_eq_None_iff)
  show ?case
    unfolding e
    by (auto simp add: Cons.IH [OF dist] k fun_eq_iff split: option.splits)
qed

text \<open>
  Whatever the order in which the loop meets the entries of the map, it builds the map
  that \<open>convertSortMap\<close> gives key by key.
\<close>

lemma mongo_convertSortMap_loop:
  "distinct (map fst es) \<Longrightarrow>
   mongo_convertSortMap (Some (map_of es)) = Some (mongo_convertSortEntries es Map.empty)"
  by (simp add: mongo_convertSortMap_def mongo_convertSortEntries_lookup)

lemma postgres_convertSortMap_loop:
  "distinct (map fst es) \<Longrightarrow>
   postgres_convertSortMap (Some (map_of es)) =
     Some (postgres_convertSortEntries es Map.empty)"
  by (simp add: postgres_convertSortMap_def postgres_convertSortEntries_lookup)

lemma known_direction:
  "ran m \<subseteq> {SortAsc, SortDesc} \<Longrightarrow> m f = Some d \<Longrightarrow> d = SortAsc \<or> d = SortDesc"
  by (auto simp: ran_def)

lemma SortAsc_neq_SortDesc: "SortAsc \<noteq> SortDesc"
  by (simp add: SortAsc_def SortDesc_def)

lemma mongo_convertSortMap_known:
  assumes "ran m \<subseteq> {SortAsc, SortDesc}"
  shows "\<exists>m'. mongo_convertSortMap (Some m) = Some m' \<and> dom m' = dom m
           \<and> (\<forall>f. (m' f = Some MongoSortAsc) = (m f = Some SortAsc))
           \<and> (\<forall>f. (m' f = Some MongoSortDesc) = (m f = Some SortDesc))"
proof -
  let ?m' = "\<lambda>field. case m field of
               None \<Rightarrow> None
             | Some direction \<Rightarrow>
                 if direction = SortAsc then Some MongoSortAsc
                 else if direction = SortDesc then Some MongoSortDesc
                 else None"
  have eq: "mongo_convertSortMap (Some m) = Some ?m'"
    by (simp add: mongo_convertSortMap_def)
  have d: "dom ?m' = dom m"
    using known_direction [OF assms]
    by (auto simp: dom_def split: option.splits)
  have a: "(?m' f = Some MongoSortAsc) = (m f = Some SortAsc)" for f
    using SortAsc_neq_SortDesc by (auto split: option.splits)
  have b: "(?m' f = Some MongoSortDesc) = (m f = Some SortDesc)" for f
    using SortAsc_neq_SortDesc by (auto split: option.splits)
  from eq d a b show ?thesis by blast
qed

lemma postgres_convertSortMap_known:
  assumes "ran m \<subseteq> {SortAsc, SortDesc}"
  shows "\<exists>m'. postgres_convertSortMap (Some m) = Some m' \<and> dom m' = dom m
           \<and> (\<forall>f. (m' f = Some PostgresSortAsc) = (m f = Some SortAsc))
           \<and> (\<forall>f. (m' f = Some PostgresSortDesc) = (m f = Some SortDesc))"
proof -
  let ?m' = "\<lambda>field. case m field of
               None \<Rightarrow> None
             | Some direction \<Rightarrow>
                 if direction = SortAsc then Some PostgresSortAsc
                 else if direction = SortDesc then Some PostgresSortDesc
                 else None"
  have eq: "postgres_convertSortMap (Some m) = Some ?m'"
    by (simp add: postgres_convertSortMap_def)
  have d: "dom ?m' = dom m"
    using known_direction [OF assms]
    by (auto simp: dom_def split: option.splits)
  have a: "(?m' f = Some PostgresSortAsc) = (m f = Some SortAsc)" for f
    using SortAsc_neq_SortDesc by (auto split: option.splits)
  have b: "(?m' f = Some PostgresSortDesc) = (m f = Some SortDesc)" for f
    using SortAsc_neq_SortDesc by (auto split: option.splits)
  from eq d a b show ?thesis by blast
qed

lemma convertSortMap_nil_and_empty:
  "mongo_convertSortMap None = None"
  "mongo_convertSortMap (Some Map.empty) = Some Map.empty"
  "postgres_convertSortMap None = None"
  "postgres_convertSortMap (Some Map.empty) = Some Map.empty"
  by (simp_all add: mongo_convertSortMap_def postgres_convertSortMap_def)

text \<open>
  \<^verbatim>\<open>int64(count)\<close> is the count itself below \<open>2 ^ 63\<close> and wraps from there on.
\<close>

lemma int64_small:
  assumes "unat count < 2 ^ 63"
  shows "int64 count = int (unat count)"
proof -
  from assms have "int (unat count) < int (2 ^ 63)"
    by (simp only: of_nat_less_iff)
  then have b: "uint count < 2 ^ 63"
    by simp
  have n: "- (2 ^ 63) \<le> uint count"
    by (rule order_trans [OF _ uint_nonnegative]) simp
  have "signed_take_bit 63 (uint count) = uint count"
    using n b by (rule signed_take_bit_int_eq_self)
  then have "sint count = uint count"
    by (simp add: sint_uint)
  then show ?thesis
    by (simp add: int64_def)
qed

lemma int64_wraps: "int64 (2 ^ 63) = - (2 ^ 63)"
  by (simp add: int64_def)

lemma paginated_calls:
  "mongo_FindAllWithPagination r ctx params st =
     (case uow_FindAllWithPagination (CreateWithContext (factory r) ctx) ctx
       \<lparr>qp_Filter = Filter params, qp_Limit = Limit params, qp_Offset = Offset params,
        qp_Sort = mongo_convertSortMap (Sort params)\<rparr> st of
     ((entities, count, err), s) \<Rightarrow> (Inr (entities, int64 count, err), s))"
  "mongo_GetTrashedWithPagination r ctx params st =
     (case uow_GetTrashedWithPagination (CreateWithContext (factory r) ctx) ctx
       \<lparr>qp_Filter = Filter params, qp_Limit = Limit params, qp_Offset = Offset params,
        qp_Sort = mongo_convertSortMap (Sort params)\<rparr> st of
     ((entities, count, err), s) \<Rightarrow> (Inr (entities, int64 count, err), s))"
  "postgres_FindAllWithPagination r' ctx params st' =
     (case uow_FindAllWithPagination (CreateWithContext (factory r') ctx) ctx
       \<lparr>qp_Filter = Filter params, qp_Limit = Limit params, qp_Offset = Offset params,
        qp_Sort = postgres_convertSortMap (Sort params)\<rparr> st' of
     ((entities, count, err), s) \<Rightarrow> (Inr (entities, int64 count, err), s))"
  "postgres_GetTrashedWithPagination r' ctx params st' =
     (case uow_GetTrashedWithPagination (CreateWithContext (factory r') ctx) ctx
       \<lparr>qp_Filter = Filter params, qp_Limit = Limit params, qp_Offset = Offset params,
        qp_Sort = postgres_convertSortMap (Sort params)\<rparr> st' of
     ((entities, count, err), s) \<Rightarrow> (Inr (entities, int64 count, err), s))"
  by (simp_all add: mongo_FindAllWithPagination_def mongo_GetTrashedWithPagination_def
      postgres_FindAllWithPagination_def postgres_GetTrashedWithPagination_def
      mongo_queryParams_def postgres_queryParams_def Let_def)

text \<open>
  C9, as stated, fails: a sort mapping may carry a direction that is neither \<^verbatim>\<open>"ASC"\<close>
  nor \<^verbatim>\<open>"DESC"\<close> (the type is a string), and such an entry is dropped, so the
  translated mapping does not have the same fields. For the mapping
  \<^verbatim>\<open>{"name": "asc"}\<close> both facades produce the empty mapping.
\<close>

theorem convertSortMap_unknown_direction_counterexample:
  "mongo_convertSortMap (Some [''name'' \<mapsto> ''asc'']) = Some Map.empty
   \<and> postgres_convertSortMap (Some [''name'' \<mapsto> ''asc'']) = Some Map.empty
   \<and> dom [''name'' \<mapsto> ''asc''] \<noteq> dom (Map.empty :: string \<rightharpoonup> mongoDomain_SortDirection)"
  by (auto simp add: mongo_convertSortMap_def postgres_convertSortMap_def SortAsc_def
      SortDesc_def fun_eq_iff)

text \<open>
  C9, amended. When every direction of the sort mapping is \<^verbatim>\<open>"ASC"\<close> or
  \<^verbatim>\<open>"DESC"\<close>, the translated mapping of either facade has exactly the same fields,
  ascending where the input is ascending and descending where it is descending; a
  \<^verbatim>\<open>nil\<close> mapping is translated to \<^verbatim>\<open>nil\<close> and an empty one to an empty one; and the
  descriptor that \<^verbatim>\<open>FindAllWithPagination\<close> and \<^verbatim>\<open>GetTrashedWithPagination\<close> hand to
  the session carries the translated mapping next to the unchanged filter, limit and
  offset; of the session's results the entities and the error are returned as they are
  and the count as \<^verbatim>\<open>int64(count)\<close>.
\<close>

theorem sort_translation_one_to_one:
  assumes "ran m \<subseteq> {SortAsc, SortDesc}"
  shows "(\<exists>m'. mongo_convertSortMap (Some m) = Some m' \<and> dom m' = dom m
           \<and> (\<forall>f. (m' f = Some MongoSortAsc) = (m f = Some SortAsc))
           \<and> (\<forall>f. (m' f = Some MongoSortDesc) = (m f = Some SortDesc)))
       \<and> (\<exists>m'. postgres_convertSortMap (Some m) = Some m' \<and> dom m' = dom m
           \<and> (\<forall>f. (m' f = Some PostgresSortAsc) = (m f = Some SortAsc))
           \<and> (\<forall>f. (m' f = Some PostgresSortDesc) = (m f = Some SortDesc)))
       \<and> mongo_convertSortMap None = None
       \<and> mongo_convertSortMap (Some Map.empty) = Some Map.empty
       \<and> postgres_convertSortMap None = None
       \<and> postgres_convertSortMap (Some Map.empty) = Some Map.empty
       \<and> mongo_FindAllWithPagination r ctx params st =
           (case uow_FindAllWithPagination (CreateWithContext (factory r) ctx) ctx
             \<lparr>qp_Filter = Filter params, qp_Limit = Limit params, qp_Offset = Offset params,
              qp_Sort = mongo_convertSortMap (Sort params)\<rparr> st of
           ((entities, count, err), s) \<Rightarrow> (Inr (entities, int64 count, err), s))
       \<and> mongo_GetTrashedWithPagination r ctx params st =
           (case uow_GetTrashedWithPagination (CreateWithContext (factory r) ctx) ctx
             \<lparr>qp_Filter = Filter params, qp_Limit = Limit params, qp_Offset = Offset params,
              qp_Sort = mongo_convertSortMap (Sort params)\<rparr> st of
           ((entities, count, err), s) \<Rightarrow> (Inr (entities, int64 count, err), s))
       \<and> postgres_FindAllWithPagination r' ctx params st' =
           (case uow_FindAllWithPagination (CreateWithContext (factory r') ctx) ctx
             \<lparr>qp_Filter = Filter params, qp_Limit = Limit params, qp_Offset = Offset params,
              qp_Sort = postgres_convertSortMap (Sort params)\<rparr> st' of
           ((entities, count, err), s) \<Rightarrow> (Inr (entities, int64 count, err), s))
       \<and> postgres_GetTrashedWithPagination r' ctx params st' =
           (case uow_GetTrashedWithPagination (CreateWithContext (factory r') ctx) ctx
             \<lparr>qp_Filter = Filter params, qp_Limit = Limit params, qp_Offset = Offset params,
              qp_Sort = postgres_convertSortMap (Sort params)\<rparr> st' of
           ((entities, count, err), s) \<Rightarrow> (Inr (entities, int64 count, err), s))"
  using mongo_convertSortMap_known [OF assms] postgres_convertSortMap_known [OF assms]
  by (simp only: convertSortMap_nil_and_empty paginated_calls simp_thms)

theorem sort_translation_one_to_one_witness:
  "ran [''name'' \<mapsto> ''ASC'', ''age'' \<mapsto> ''DESC''] \<subseteq> {SortAsc, SortDesc}
   \<and> (\<exists>m'. mongo_convertSortMap (Some [''name'' \<mapsto> ''ASC'', ''age'' \<mapsto> ''DESC'']) = Some m'
         \<and> dom m' = {''name'', ''age''}
         \<and> m' ''name'' = Some MongoSortAsc \<and> m' ''age'' = Some MongoSortDesc)
   \<and> (\<exists>m'. postgres_convertSortMap (Some [''name'' \<mapsto> ''ASC'', ''age'' \<mapsto> ''DESC'']) = Some m'
         \<and> dom m' = {''name'', ''age''}
         \<and> m' ''name'' = Some PostgresSortAsc \<and> m' ''age'' = Some PostgresSortDesc)"
proof -
  let ?m = "[''name'' \<mapsto> ''ASC'', ''age'' \<mapsto> ''DESC'']"
  have h: "ran ?m \<subseteq> {SortAsc, SortDesc}"
    by (auto simp: ran_def SortAsc_def SortDesc_def split: if_splits)
  note t = sort_translation_one_to_one [OF h]
  have d: "dom ?m = {''name'', ''age''}"
    by auto
  have n: "?m ''name'' = Some SortAsc" and g: "?m ''age'' = Some SortDesc"
    by (simp_all add: SortAsc_def SortDesc_def)
  from t [THEN conjunct1] obtain a where
    a: "mongo_convertSortMap (Some ?m) = Some a \<and> dom a = dom ?m
        \<and> (\<forall>f. (a f = Some MongoSortAsc) = (?m f = Some SortAsc))
        \<and> (\<forall>f. (a f = Some MongoSortDesc) = (?m f = Some SortDesc))" ..
  from t [THEN conjunct2, THEN conjunct1] obtain b where
    b: "postgres_convertSortMap (Some ?m) = Some b \<and> dom b = dom ?m
        \<and> (\<forall>f. (b f = Some PostgresSortAsc) = (?m f = Some SortAsc))
        \<and> (\<forall>f. (b f = Some PostgresSortDesc) = (?m f = Some SortDesc))" ..
  have a1: "mongo_convertSortMap (Some ?m) = Some a" and a2: "dom a = {''name'', ''age''}"
    using a d by simp_all
  have a3: "a ''name'' = Some MongoSortAsc"
    using a [THEN conjunct2, THEN conjunct2, THEN conjunct1, rule_format, of "''name''"] n
    by (simp only: simp_thms)
  have a4: "a ''age'' = Some MongoSortDesc"
    using a [THEN conjunct2, THEN conjunct2, THEN conjunct2, rule_format, of "''age''"] g
    by (simp only: simp_thms)
  have b1: "postgres_convertSortMap (Some ?m) = Some b" and b2: "dom b = {''name'', ''age''}"
    using b d by simp_all
  have b3: "b ''name'' = Some PostgresSortAsc"
    using b [THEN conjunct2, THEN conjunct2, THEN conjunct1, rule_format, of "''name''"] n
    by (simp only: simp_thms)
  have b4: "b ''age'' = Some PostgresSortDesc"
    using b [THEN conjunct2, THEN conjunct2, THEN conjunct2, rule_format, of "''age''"] g
    by (simp only: simp_thms)
  from a1 a2 a3 a4 have A: "\<exists>m'. mongo_convertSortMap (Some ?m) = Some m'
         \<and> dom m' = {''name'', ''age''}
         \<and> m' ''name'' = Some MongoSortAsc \<and> m' ''age'' = Some MongoSortDesc"
    by (intro exI [of _ a] conjI)
  from b1 b2 b3 b4 have B: "\<exists>m'. postgres_convertSortMap (Some ?m) = Some m'
         \<and> dom m' = {''name'', ''age''}
         \<and> m' ''name'' = Some PostgresSortAsc \<and> m' ''age'' = Some PostgresSortDesc"
    by (intro exI [of _ b] conjI)
  from h A B show ?thesis by (intro conjI)
qed

subsection \<open>Reads and deletes\<close>

text \<open>
  C1. The facade's \<^verbatim>\<open>FindAll\<close> does not look at its filter: it returns what the
  session's \<^verbatim>\<open>FindAll(ctx)\<close> returns, the same for any two filters. Run on the
  recording session with the filter \<^verbatim>\<open>Equal("active", true)\<close>, it hands the session no
  filter and returns the session's entity, here one that is not active.
\<close>

theorem FindAll_ignores_filter:
  "mongo_FindAll r ctx filt st =
     returned (uow_FindAll (CreateWithContext (factory r) ctx) ctx st)
   \<and> mongo_FindAll r ctx filt st = mongo_FindAll r ctx filt' st
   \<and> postgres_FindAll r' ctx filt st' =
     returned (uow_FindAll (CreateWithContext (factory r') ctx) ctx st')
   \<and> postgres_FindAll r' ctx filt st' = postgres_FindAll r' ctx filt' st'
   \<and> mongo_FindAll (recording_repository (''bob'', False) None) ()
        (UnifiedIdentifierPtr
           (Some (Equal spec_identifiers (NewMongoIdentifier spec_identifiers)
                    ''active'' True))) [] =
      (Inr ([(''bob'', False)], None), [Called ''FindAll'' []])"
  by (simp add: mongo_FindAll_def postgres_FindAll_def recording_repository_def
      recording_uow_def call_defs Let_def)

lemma mongo_nativeFilters_unified:
  "mongo_nativeFilters (map (\<lambda>u. UnifiedIdentifierPtr (Some u)) us) =
     Inr (map GetMongoIdentifier us)"
  by (induction us) (simp_all add: mongo_nativeFilter_def)

lemma postgres_nativeFilters_unified:
  "postgres_nativeFilters (map (\<lambda>u. UnifiedIdentifierPtr (Some u)) us) =
     Inr (map GetPostgresIdentifier us)"
  by (induction us) (simp_all add: postgres_nativeFilter_def)

lemma BulkDelete_unified:
  "mongo_BulkDelete r ctx (map (\<lambda>u. UnifiedIdentifierPtr (Some u)) us) st =
     returned (uow_BulkHardDelete (CreateWithContext (factory r) ctx) ctx
       (map GetMongoIdentifier us) st)"
  "postgres_BulkDelete r' ctx (map (\<lambda>u. UnifiedIdentifierPtr (Some u)) us) st' =
     returned (uow_BulkHardDelete (CreateWithContext (factory r') ctx) ctx
       (map GetPostgresIdentifier us) st')"
  by (simp_all add: mongo_BulkDelete_def postgres_BulkDelete_def
      mongo_nativeFilters_unified postgres_nativeFilters_unified)

text \<open>
  C2, as stated, fails: \<^verbatim>\<open>BulkDelete\<close> is not \<^verbatim>\<open>Delete\<close> applied per element. On the
  recording session, with the one filter \<^verbatim>\<open>Equal("id", 7)\<close>, the facade's
  \<^verbatim>\<open>BulkDelete\<close> makes one \<^verbatim>\<open>BulkHardDelete\<close> call on the session, while deleting the
  filters one by one makes a \<^verbatim>\<open>Delete\<close> call.
\<close>

theorem BulkDelete_per_element_counterexample:
  "mongo_BulkDelete (recording_repository () (None :: unit option)) ()
     [UnifiedIdentifierPtr
        (Some (Equal spec_identifiers (NewMongoIdentifier spec_identifiers) ''id'' (7::int)))
        :: (int predicates, int predicates, unit) Identifier] [] =
     (Inr None,
      [Called ''BulkHardDelete'' [Some [''id'' \<mapsto> [OpEqual \<mapsto> Value 7]]]])
   \<and> mongo_spec_BulkDelete (recording_repository () (None :: unit option)) ()
     [UnifiedIdentifierPtr
        (Some (Equal spec_identifiers (NewMongoIdentifier spec_identifiers) ''id'' (7::int)))
        :: (int predicates, int predicates, unit) Identifier] [] =
     (Inr None,
      [Called ''Delete'' [Some [''id'' \<mapsto> [OpEqual \<mapsto> Value 7]]]])
   \<and> mongo_BulkDelete (recording_repository () (None :: unit option)) ()
     [UnifiedIdentifierPtr
        (Some (Equal spec_identifiers (NewMongoIdentifier spec_identifiers) ''id'' (7::int)))
        :: (int predicates, int predicates, unit) Identifier] [] \<noteq>
     mongo_spec_BulkDelete (recording_repository () (None :: unit option)) ()
     [UnifiedIdentifierPtr
        (Some (Equal spec_identifiers (NewMongoIdentifier spec_identifiers) ''id'' (7::int)))
        :: (int predicates, int predicates, unit) Identifier] []"
  by (simp add: mongo_BulkDelete_def mongo_Delete_def recording_repository_def
      recording_uow_def call_defs mongo_nativeFilter_def GetMongoIdentifier_def Equal_def
      NewMongoIdentifier_def spec_simps record_predicate_def)

text \<open>
  C2, amended. \<^verbatim>\<open>BulkDelete\<close> translates each filter to its backend-native form, in
  order, and invokes the session's \<^verbatim>\<open>BulkHardDelete\<close> once with the translated list,
  passing its result on: on every input it does what the facade's \<^verbatim>\<open>BulkHardDelete\<close>
  does.
\<close>

theorem BulkDelete_is_BulkHardDelete:
  "mongo_BulkDelete r ctx filters st = mongo_BulkHardDelete r ctx filters st
   \<and> postgres_BulkDelete r' ctx filters st' = postgres_BulkHardDelete r' ctx filters st'
   \<and> mongo_BulkDelete r ctx (map (\<lambda>u. UnifiedIdentifierPtr (Some u)) us) st =
       returned (uow_BulkHardDelete (CreateWithContext (factory r) ctx) ctx
         (map GetMongoIdentifier us) st)
   \<and> postgres_BulkDelete r' ctx (map (\<lambda>u. UnifiedIdentifierPtr (Some u)) us) st' =
       returned (uow_BulkHardDelete (CreateWithContext (factory r') ctx) ctx
         (map GetPostgresIdentifier us) st')"
  by (simp add: BulkDelete_unified)
    (simp add: mongo_BulkDelete_def mongo_BulkHardDelete_def postgres_BulkDelete_def
      postgres_BulkHardDelete_def)

subsection \<open>Transactions\<close>

text \<open>
  C3. \<^verbatim>\<open>RollbackTransaction\<close> returns \<^verbatim>\<open>nil\<close> whatever the session's rollback returned;
  the store is left as the session's rollback left it. \<^verbatim>\<open>BeginTransaction\<close> and
  \<^verbatim>\<open>CommitTransaction\<close> return the session's result as it is.
\<close>

theorem rollback_always_reports_success:
  "mongo_RollbackTransaction r ctx st =
     (Inr None, snd (uow_RollbackTransaction (CreateWithContext (factory r) ctx) ctx st))
   \<and> mongo_BeginTransaction r ctx st =
     returned (uow_BeginTransaction (CreateWithContext (factory r) ctx) ctx st)
   \<and> mongo_CommitTransaction r ctx st =
     returned (uow_CommitTransaction (CreateWithContext (factory r) ctx) ctx st)
   \<and> postgres_RollbackTransaction r' ctx st' =
     (Inr None, snd (uow_RollbackTransaction (CreateWithContext (factory r') ctx) ctx st'))
   \<and> postgres_BeginTransaction r' ctx st' =
     returned (uow_BeginTransaction (CreateWithContext (factory r') ctx) ctx st')
   \<and> postgres_CommitTransaction r' ctx st' =
     returned (uow_CommitTransaction (CreateWithContext (factory r') ctx) ctx st')"
  by (simp add: mongo_RollbackTransaction_def mongo_BeginTransaction_def
      mongo_CommitTransaction_def postgres_RollbackTransaction_def
      postgres_BeginTransaction_def postgres_CommitTransaction_def)

text \<open>
  On a session whose every call fails with \<open>e\<close>, begin and commit report \<open>e\<close> and
  rollback reports success.
\<close>

lemma failing_session_transactions:
  "mongo_BeginTransaction (recording_repository x (Some e)) () [] =
     (Inr (Some e), [Called ''BeginTransaction'' []])"
  "mongo_CommitTransaction (recording_repository x (Some e)) () [] =
     (Inr (Some e), [Called ''CommitTransaction'' []])"
  "mongo_RollbackTransaction (recording_repository x (Some e)) () [] =
     (Inr None, [Called ''RollbackTransaction'' []])"
  by (simp_all add: mongo_RollbackTransaction_def mongo_BeginTransaction_def
      mongo_CommitTransaction_def recording_repository_def recording_uow_def call_defs)

subsection \<open>The unchecked down-cast\<close>

lemma nativeFilter_other:
  "mongo_nativeFilter (OtherIdentifier x) = Inl TypeAssertionPanic"
  "postgres_nativeFilter (OtherIdentifier x) = Inl TypeAssertionPanic"
  by (simp_all add: mongo_nativeFilter_def postgres_nativeFilter_def)

lemma mongo_nativeFilters_other:
  "\<exists>p. mongo_nativeFilters (pre @ OtherIdentifier x # post) = Inl p"
  by (induction pre) (auto simp add: nativeFilter_other split: sum.splits)

lemma postgres_nativeFilters_other:
  "\<exists>p. postgres_nativeFilters (pre @ OtherIdentifier x # post) = Inl p"
  by (induction pre) (auto simp add: nativeFilter_other split: sum.splits)

lemma mongo_single_panics:
  "mongo_FindOne r ctx (OtherIdentifier x) st = (Inl TypeAssertionPanic, st)"
  "mongo_Update r ctx (OtherIdentifier x) entity st = (Inl TypeAssertionPanic, st)"
  "mongo_Delete r ctx (OtherIdentifier x) st = (Inl TypeAssertionPanic, st)"
  "mongo_SoftDelete r ctx (OtherIdentifier x) st = (Inl TypeAssertionPanic, st)"
  "mongo_HardDelete r ctx (OtherIdentifier x) st = (Inl TypeAssertionPanic, st)"
  "mongo_Restore r ctx (OtherIdentifier x) st = (Inl TypeAssertionPanic, st)"
  by (simp_all add: mongo_FindOne_def mongo_Update_def mongo_Delete_def mongo_SoftDelete_def
      mongo_HardDelete_def mongo_Restore_def nativeFilter_other panicked_def)

lemma postgres_single_panics:
  "postgres_FindOne r ctx (OtherIdentifier x) st = (Inl TypeAssertionPanic, st)"
  "postgres_Update r ctx (OtherIdentifier x) entity st = (Inl TypeAssertionPanic, st)"
  "postgres_Delete r ctx (OtherIdentifier x) st = (Inl TypeAssertionPanic, st)"
  "postgres_SoftDelete r ctx (OtherIdentifier x) st = (Inl TypeAssertionPanic, st)"
  "postgres_HardDelete r ctx (OtherIdentifier x) st = (Inl TypeAssertionPanic, st)"
  "postgres_Restore r ctx (OtherIdentifier x) st = (Inl TypeAssertionPanic, st)"
  by (simp_all add: postgres_FindOne_def postgres_Update_def postgres_Delete_def
      postgres_SoftDelete_def postgres_HardDelete_def postgres_Restore_def nativeFilter_other
      panicked_def)

lemma mongo_bulk_panics:
  "\<exists>p. mongo_BulkDelete r ctx (pre @ OtherIdentifier x # post) st = (Inl p, st)"
  "\<exists>p. mongo_BulkSoftDelete r ctx (pre @ OtherIdentifier x # post) st = (Inl p, st)"
  "\<exists>p. mongo_BulkHardDelete r ctx (pre @ OtherIdentifier x # post) st = (Inl p, st)"
  using mongo_nativeFilters_other [of pre x post]
  by (auto simp add: mongo_BulkDelete_def mongo_BulkSoftDelete_def mongo_BulkHardDelete_def
      panicked_def)

lemma postgres_bulk_panics:
  "\<exists>p. postgres_BulkDelete r ctx (pre @ OtherIdentifier x # post) st = (Inl p, st)"
  "\<exists>p. postgres_BulkSoftDelete r ctx (pre @ OtherIdentifier x # post) st = (Inl p, st)"
  "\<exists>p. postgres_BulkHardDelete r ctx (pre @ OtherIdentifier x # post) st = (Inl p, st)"
  using postgres_nativeFilters_other [of pre x post]
  by (auto simp add: postgres_BulkDelete_def postgres_BulkSoftDelete_def
      postgres_BulkHardDelete_def panicked_def)

text \<open>
  C10. Given a filter that implements \<^verbatim>\<open>types.Identifier\<close> but is not a
  \<^verbatim>\<open>*identifier.UnifiedIdentifier\<close>, each of \<^verbatim>\<open>FindOne\<close>, \<^verbatim>\<open>Update\<close>, \<^verbatim>\<open>Delete\<close>,
  \<^verbatim>\<open>SoftDelete\<close>, \<^verbatim>\<open>HardDelete\<close> and \<^verbatim>\<open>Restore\<close> panics at the type assertion, and each
  of \<^verbatim>\<open>BulkDelete\<close>, \<^verbatim>\<open>BulkSoftDelete\<close> and \<^verbatim>\<open>BulkHardDelete\<close> panics when such a filter
  stands anywhere in its list; no error value is returned and the store is untouched.
\<close>

theorem foreign_filter_panics:
  "mongo_FindOne r ctx (OtherIdentifier x) st = (Inl TypeAssertionPanic, st)
   \<and> mongo_Update r ctx (OtherIdentifier x) entity st = (Inl TypeAssertionPanic, st)
   \<and> mongo_Delete r ctx (OtherIdentifier x) st = (Inl TypeAssertionPanic, st)
   \<and> mongo_SoftDelete r ctx (OtherIdentifier x) st = (Inl TypeAssertionPanic, st)
   \<and> mongo_HardDelete r ctx (OtherIdentifier x) st = (Inl TypeAssertionPanic, st)
   \<and> mongo_Restore r ctx (OtherIdentifier x) st = (Inl TypeAssertionPanic, st)
   \<and> (\<exists>p. mongo_BulkDelete r ctx (pre @ OtherIdentifier x # post) st = (Inl p, st))
   \<and> (\<exists>p. mongo_BulkSoftDelete r ctx (pre @ OtherIdentifier x # post) st = (Inl p, st))
   \<and> (\<exists>p. mongo_BulkHardDelete r ctx (pre @ OtherIdentifier x # post) st = (Inl p, st))
   \<and> postgres_FindOne r' ctx (OtherIdentifier x) st' = (Inl TypeAssertionPanic, st')
   \<and> postgres_Update r' ctx (OtherIdentifier x) entity st' = (Inl TypeAssertionPanic, st')
   \<and> postgres_Delete r' ctx (OtherIdentifier x) st' = (Inl TypeAssertionPanic, st')
   \<and> postgres_SoftDelete r' ctx (OtherIdentifier x) st' = (Inl TypeAssertionPanic, st')
   \<and> postgres_HardDelete r' ctx (OtherIdentifier x) st' = (Inl TypeAssertionPanic, st')
   \<and> postgres_Restore r' ctx (OtherIdentifier x) st' = (Inl TypeAssertionPanic, st')
   \<and> (\<exists>p. postgres_BulkDelete r' ctx (pre @ OtherIdentifier x # post) st' = (Inl p, st'))
   \<and> (\<exists>p. postgres_BulkSoftDelete r' ctx (pre @ OtherIdentifier x # post) st' = (Inl p, st'))
   \<and> (\<exists>p. postgres_BulkHardDelete r' ctx (pre @ OtherIdentifier x # post) st' = (Inl p, st'))"
  by (simp only: mongo_single_panics postgres_single_panics mongo_bulk_panics
      postgres_bulk_panics simp_thms)

end
